theory Spec2Isabelle
  imports Complex_Main
begin

section \<open>Data model of \<open>data_filter.py\<close>\<close>

text \<open>
  The module filters pandas data frames. A data frame is modelled row-major: the column
  names with their dtypes, and the rows in order, each row giving a cell per column name.
  Selecting rows by a boolean mask (\<open>df[mask]\<close>) keeps the rows whose mask entry is true, in
  their order, and leaves the columns alone. \<open>df.copy()\<close> is the identity on values.
\<close>

subsection \<open>Floating-point values\<close>

text \<open>
  The bounds of the numeric filter are Python floats and the comparisons are IEEE
  comparisons. Only the order matters here, so a float is a real number, an infinity or
  NaN; every comparison with NaN is false and \<open>!=\<close> with NaN is true.
\<close>

datatype fval = NaN | NegInf | Fin real | PosInf

fun fle :: "fval \<Rightarrow> fval \<Rightarrow> bool" where
  "fle NaN _ = False"
| "fle _ NaN = False"
| "fle NegInf _ = True"
| "fle _ PosInf = True"
| "fle (Fin a) (Fin b) = (a \<le> b)"
| "fle _ _ = False"

definition feq :: "fval \<Rightarrow> fval \<Rightarrow> bool" where
  "feq a b = (a \<noteq> NaN \<and> b \<noteq> NaN \<and> a = b)"

definition fne :: "fval \<Rightarrow> fval \<Rightarrow> bool" where
  "fne a b = (\<not> feq a b)"

definition fge :: "fval \<Rightarrow> fval \<Rightarrow> bool" where
  "fge a b = fle b a"

definition fgt :: "fval \<Rightarrow> fval \<Rightarrow> bool" where
  "fgt a b = (fle b a \<and> \<not> feq a b)"

subsection \<open>Cells, dtypes and data frames\<close>

datatype dtype =
  Int64 | Int32 | Float64 | Float32 | Bool | Object | Category | Datetime64

text \<open>\<open>str(dtype)\<close>, which the join's auto-fix searches for \<open>'int'\<close> and \<open>'float'\<close>.\<close>

fun dtype_name :: "dtype \<Rightarrow> string" where
  "dtype_name Int64 = ''int64''"
| "dtype_name Int32 = ''int32''"
| "dtype_name Float64 = ''float64''"
| "dtype_name Float32 = ''float32''"
| "dtype_name Bool = ''bool''"
| "dtype_name Object = ''object''"
| "dtype_name Category = ''category''"
| "dtype_name Datetime64 = ''datetime64[ns]''"

text \<open>
  A cell: an integer (of an integer column), a float (of a float column), a string, a
  boolean, a timestamp (day number and nanoseconds into the day), or the missing value
  of an object or datetime column (\<open>None\<close>, \<open>NaN\<close>, \<open>NaT\<close>). The missing value of a float
  column is \<open>Num NaN\<close>; an integer column has none.
\<close>

datatype cell = Whole int | Num fval | Str string | Flag bool | Stamp int nat | Missing

type_synonym row = "(string \<times> cell) list"

record dataframe =
  dtypes :: "(string \<times> dtype) list"
  rows :: "row list"

definition cell_at :: "row \<Rightarrow> string \<Rightarrow> cell" where
  "cell_at r col = (case map_of r col of Some c \<Rightarrow> c | None \<Rightarrow> Missing)"

definition column_of :: "dataframe \<Rightarrow> string \<Rightarrow> cell list" where
  "column_of df col = map (\<lambda>r. cell_at r col) (rows df)"

definition dtype_of :: "dataframe \<Rightarrow> string \<Rightarrow> dtype option" where
  "dtype_of df col = map_of (dtypes df) col"

definition len :: "dataframe \<Rightarrow> nat" where
  "len df = length (rows df)"

text \<open>\<open>df.empty\<close>: no rows or no columns.\<close>

definition empty_df :: "dataframe \<Rightarrow> bool" where
  "empty_df df = (rows df = [] \<or> dtypes df = [])"

text \<open>\<open>df[mask]\<close> for the mask that a predicate on rows computes.\<close>

definition select_rows :: "(row \<Rightarrow> bool) \<Rightarrow> dataframe \<Rightarrow> dataframe" where
  "select_rows keep df = df\<lparr>rows := filter keep (rows df)\<rparr>"

text \<open>\<open>isna\<close>: the missing values of either kind of column.\<close>

fun is_missing :: "cell \<Rightarrow> bool" where
  "is_missing Missing = True"
| "is_missing (Num v) = (v = NaN)"
| "is_missing _ = False"

text \<open>
  The float64 nearest to an integer, ties to the even mantissa: what \<open>float(n)\<close> gives and
  what a comparison of an integer column with a float bound converts each value to. The
  exponent is counted against the powers of two from \<open>2^53\<close> to \<open>2^63\<close>, which covers every
  64-bit integer.
\<close>

definition float64_of_int :: "int \<Rightarrow> real" where
  "float64_of_int n =
     (let m = nat \<bar>n\<bar>;
          e = length (filter (\<lambda>k. 2 ^ (53 + k) \<le> m) [0, 1, 2, 3, 4, 5, 6, 7, 8, 9, 10]);
          q = m div 2 ^ e;
          r = m mod 2 ^ e;
          mantissa = (if 2 ^ e < 2 * r \<or> (2 * r = 2 ^ e \<and> odd q) then q + 1 else q)
      in if n < 0 then - real (mantissa * 2 ^ e) else real (mantissa * 2 ^ e))"

text \<open>The value of a numeric cell as the number it is; NaN for any other cell.\<close>

fun exact :: "cell \<Rightarrow> fval" where
  "exact (Whole n) = Fin (real_of_int n)"
| "exact (Num v) = v"
| "exact _ = NaN"

text \<open>The float that \<open>float(...)\<close> and a comparison with a float bound read from a cell.\<close>

fun fnum :: "cell \<Rightarrow> fval" where
  "fnum (Whole n) = Fin (float64_of_int n)"
| "fnum (Num v) = v"
| "fnum _ = NaN"

text \<open>
  \<open>float(Series.min())\<close> and \<open>float(Series.max())\<close>: \<open>min\<close> and \<open>max\<close> skip missing values,
  pick the least and the greatest of the values as they are, and give NaN when nothing
  is left; \<open>float\<close> then converts the value picked.
\<close>

definition present_cells :: "dataframe \<Rightarrow> string \<Rightarrow> cell list" where
  "present_cells df col = filter (\<lambda>c. exact c \<noteq> NaN) (column_of df col)"

definition cell_min :: "cell \<Rightarrow> cell \<Rightarrow> cell" where
  "cell_min a b = (if fle (exact a) (exact b) then a else b)"

definition cell_max :: "cell \<Rightarrow> cell \<Rightarrow> cell" where
  "cell_max a b = (if fle (exact a) (exact b) then b else a)"

definition column_min :: "dataframe \<Rightarrow> string \<Rightarrow> fval" where
  "column_min df col =
     (case present_cells df col of [] \<Rightarrow> NaN | c # cs \<Rightarrow> fnum (foldl cell_min c cs))"

definition column_max :: "dataframe \<Rightarrow> string \<Rightarrow> fval" where
  "column_max df col =
     (case present_cells df col of [] \<Rightarrow> NaN | c # cs \<Rightarrow> fnum (foldl cell_max c cs))"

text \<open>
  What it means for a float \<open>m\<close> to be the minimum, or the maximum, of a column: \<open>m\<close> is
  the float64 of a value of the column that is not missing and that no other value of
  the column that is not missing lies below, or above. These two predicates are not
  read from the code; the code's \<open>column_min\<close> and \<open>column_max\<close> are compared with them.
\<close>

definition is_column_min :: "dataframe \<Rightarrow> string \<Rightarrow> fval \<Rightarrow> bool" where
  "is_column_min df col m =
     list_ex (\<lambda>c. exact c \<noteq> NaN \<and> fnum c = m
                \<and> list_all (\<lambda>c'. exact c' = NaN \<or> fle (exact c) (exact c')) (column_of df col))
       (column_of df col)"

definition is_column_max :: "dataframe \<Rightarrow> string \<Rightarrow> fval \<Rightarrow> bool" where
  "is_column_max df col m =
     list_ex (\<lambda>c. exact c \<noteq> NaN \<and> fnum c = m
                \<and> list_all (\<lambda>c'. exact c' = NaN \<or> fle (exact c') (exact c)) (column_of df col))
       (column_of df col)"

text \<open>A numeric column of pandas holds integers only or floats only.\<close>

fun is_whole :: "cell \<Rightarrow> bool" where
  "is_whole (Whole n) = True"
| "is_whole _ = False"

fun is_float :: "cell \<Rightarrow> bool" where
  "is_float (Num v) = True"
| "is_float _ = False"

definition uniform_column :: "dataframe \<Rightarrow> string \<Rightarrow> bool" where
  "uniform_column df col =
     (list_all is_whole (column_of df col) \<or> list_all is_float (column_of df col))"

subsection \<open>What the user sees and what a filter reports\<close>

text \<open>
  The messages that report an outcome through \<open>st.error\<close>, \<open>st.warning\<close>, \<open>st.info\<close> and
  \<open>st.success\<close>, one constructor per call site, with the values the message is formatted
  from. Headings, metrics and the other display-only calls are left out.
\<close>

datatype notice =
    MinAboveMax fval fval
  | FilterApplied nat
  | NeedTwoDatasets
  | CompatibleTypes dtype
  | TypeMismatch dtype dtype
  | ConversionFailed string
  | JoinFailed string
  | AutoFixHint
  | NoData
  | NoColumns
  | QueryApplied nat
  | QueryError string
  | QueryHint
  | Filtered nat

text \<open>
  The description a filter returns: the f-strings of the handlers, kept as the values
  they are formatted from; \<open>NoDetail\<close> is the empty string.
\<close>

datatype detail =
    NoDetail
  | ValuesDetail string nat nat
  | ContainsDetail string string
  | RangeDetail string fval fval
  | DateDetail string int int
  | JoinDetail string string string string
  | QueryDetail string

datatype mode = SimpleFilters | QueryBuilder | JoinDatasets

record filter_info =
  active :: bool
  ftype :: "mode option"
  original_count :: nat
  filtered_count :: nat
  filters_applied :: "detail list"

text \<open>The fields of a \<open>DataFilter\<close> object.\<close>

record session =
  original_df :: dataframe
  filtered_df :: dataframe
  filter_info :: filter_info

text \<open>\<open>DataFilter.__init__\<close>\<close>

definition init :: "dataframe \<Rightarrow> session" where
  "init df = \<lparr>original_df = df, filtered_df = df,
     filter_info = \<lparr>active = False, ftype = None, original_count = len df,
       filtered_count = len df, filters_applied = []\<rparr>\<rparr>"

text \<open>\<open>DataFilter.clear_filters\<close>: the new object state and the frame returned.\<close>

definition clear_filters :: "session \<Rightarrow> session \<times> dataframe" where
  "clear_filters s =
     (let s' = s\<lparr>filtered_df := original_df s,
                 filter_info := \<lparr>active = False, ftype = None,
                   original_count = len (original_df s),
                   filtered_count = len (original_df s), filters_applied = []\<rparr>\<rparr>
      in (s', filtered_df s'))"

section \<open>The numeric range filter\<close>

text \<open>
  \<open>_handle_numeric_filter\<close> reads a range from one of three widget layouts. The widgets
  belong to Streamlit; what they return is the input of the model.
\<close>

datatype filter_method = Slider | ManualInput | Both

record numeric_input =
  filter_method :: filter_method
  slider_range :: "fval \<times> fval"
  manual_min :: fval
  manual_max :: fval

definition chosen_range :: "numeric_input \<Rightarrow> fval \<times> fval" where
  "chosen_range ui =
     (case filter_method ui of
        Slider \<Rightarrow> slider_range ui
      | ManualInput \<Rightarrow> (manual_min ui, manual_max ui)
      | Both \<Rightarrow> (manual_min ui, manual_max ui))"

definition handle_numeric_filter ::
  "dataframe \<Rightarrow> dataframe \<Rightarrow> string \<Rightarrow> numeric_input
     \<Rightarrow> dataframe \<times> bool \<times> detail \<times> notice list" where
  "handle_numeric_filter orig df col ui =
     (let min_val = column_min orig col;
          max_val = column_max orig col;
          (final_min, final_max) = chosen_range ui
      in if fgt final_min final_max
         then (df, False, NoDetail, [MinAboveMax final_min final_max])
         else if fne final_min min_val \<or> fne final_max max_val
         then (let filtered =
                     select_rows (\<lambda>r. fge (fnum (cell_at r col)) final_min
                                      \<and> fle (fnum (cell_at r col)) final_max) df
               in (filtered, True, RangeDetail col final_min final_max,
                   [FilterApplied (len filtered)]))
         else (df, False, NoDetail, []))"

section \<open>Strings, exceptions and the library\<close>

text \<open>Python's \<open>p in s\<close> on strings.\<close>

fun starts_with :: "string \<Rightarrow> string \<Rightarrow> bool" where
  "starts_with [] s = True"
| "starts_with (p # ps) [] = False"
| "starts_with (p # ps) (c # cs) = (p = c \<and> starts_with ps cs)"

fun sub_in :: "string \<Rightarrow> string \<Rightarrow> bool" where
  "sub_in p [] = starts_with p []"
| "sub_in p (c # cs) = (starts_with p (c # cs) \<or> sub_in p cs)"

text \<open>\<open>str.lower()\<close> on ASCII letters.\<close>

definition lower_char :: "char \<Rightarrow> char" where
  "lower_char c =
     (case map_of (zip ''ABCDEFGHIJKLMNOPQRSTUVWXYZ'' ''abcdefghijklmnopqrstuvwxyz'') c of
        Some d \<Rightarrow> d
      | None \<Rightarrow> c)"

definition lower :: "string \<Rightarrow> string" where
  "lower s = map lower_char s"

text \<open>A text between single quotes, as \<open>repr\<close> prints a string and as the query
  builder writes a string literal.\<close>

definition quoted :: "string \<Rightarrow> string" where
  "quoted v = [CHR 0x27] @ v @ [CHR 0x27]"

text \<open>
  The exceptions that can leave a function of the module: the interpreter's own, and
  \<open>Raised msg\<close> for an exception with message \<open>msg\<close> raised inside a pandas call.
\<close>

datatype exn = UnboundLocalError string | KeyError string | ZeroDivisionError | Raised string

text \<open>\<open>str(e)\<close>\<close>

fun exn_message :: "exn \<Rightarrow> string" where
  "exn_message (UnboundLocalError v) =
     ''cannot access local variable '' @ quoted v
       @ '' where it is not associated with a value''"
| "exn_message (KeyError k) = quoted k"
| "exn_message ZeroDivisionError = ''division by zero''"
| "exn_message (Raised msg) = msg"

datatype join_kind = Inner | LeftJoin | RightJoin | Outer

datatype cast = ToStr | ToFloat

text \<open>
  The pandas calls whose result the module passes on as it is. They are parameters of
  the model: the general properties below hold for any library, and each example fixes
  the library that it is evaluated with.
  \<^item> \<open>pd_merge left right left_on right_on how\<close> is
    \<open>pd.merge(left, right, left_on=..., right_on=..., how=..., suffixes=('_left', '_right'))\<close>;
  \<^item> \<open>df_query df expr\<close> is \<open>df.query(expr)\<close>;
  \<^item> \<open>re_compile pat\<close> is the pattern of \<open>Series.str.contains(pat, case=False, na=False)\<close>,
    compiled: the test it applies to each string of the column, or the error of a pattern
    that does not compile (\<open>regex=True\<close> is the default of \<open>str.contains\<close>);
  \<^item> \<open>astype df col target\<close> is \<open>df\<close> with \<open>df[col] = df[col].astype(target)\<close>.
\<close>

record library =
  pd_merge :: "dataframe \<Rightarrow> dataframe \<Rightarrow> string \<Rightarrow> string \<Rightarrow> join_kind \<Rightarrow> exn + dataframe"
  df_query :: "dataframe \<Rightarrow> string \<Rightarrow> exn + dataframe"
  re_compile :: "string \<Rightarrow> exn + (string \<Rightarrow> bool)"
  astype :: "dataframe \<Rightarrow> string \<Rightarrow> cast \<Rightarrow> exn + dataframe"

section \<open>The categorical and datetime filters\<close>

text \<open>\<open>Series.unique()\<close>: the distinct cells in order of first appearance, a missing value
  among them when the column has one.\<close>

definition unique_values :: "dataframe \<Rightarrow> string \<Rightarrow> cell list" where
  "unique_values df col = rev (remdups (rev (column_of df col)))"

text \<open>
  The mask of \<open>str.contains(term, case=False, na=False)\<close>: the compiled test on a string,
  false on a cell that is not a string.
\<close>

definition contains_mask :: "(string \<Rightarrow> bool) \<Rightarrow> string \<Rightarrow> row \<Rightarrow> bool" where
  "contains_mask test col r = (case cell_at r col of Str s \<Rightarrow> test s | _ \<Rightarrow> False)"

record categorical_input =
  selected_values :: "cell list"
  search_term :: string

definition handle_categorical_filter ::
  "library \<Rightarrow> dataframe \<Rightarrow> dataframe \<Rightarrow> string \<Rightarrow> categorical_input
     \<Rightarrow> exn + dataframe \<times> bool \<times> detail \<times> notice list" where
  "handle_categorical_filter L orig df col ui =
     (let uniq = unique_values orig col
      in if length uniq \<le> 50
         then (if length (selected_values ui) < length uniq
               then Inr (select_rows (\<lambda>r. cell_at r col \<in> set (selected_values ui)) df, True,
                         ValuesDetail col (length (selected_values ui)) (length uniq), [])
               else Inr (df, False, NoDetail, []))
         else (if search_term ui \<noteq> []
               then (case re_compile L (search_term ui) of
                       Inl e \<Rightarrow> Inl e
                     | Inr test \<Rightarrow>
                         Inr (select_rows (contains_mask test col) df, True,
                              ContainsDetail col (search_term ui), []))
               else Inr (df, False, NoDetail, [])))"

text \<open>The days of the timestamps of a column; \<open>NaT\<close> has none.\<close>

fun day_of :: "cell \<Rightarrow> int list" where
  "day_of (Stamp d t) = [d]"
| "day_of _ = []"

definition days :: "dataframe \<Rightarrow> string \<Rightarrow> int list" where
  "days df col = concat (map day_of (column_of df col))"

definition date_mask :: "int \<Rightarrow> int \<Rightarrow> string \<Rightarrow> row \<Rightarrow> bool" where
  "date_mask start_date end_date col r =
     (case cell_at r col of Stamp d t \<Rightarrow> start_date \<le> d \<and> d \<le> end_date | _ \<Rightarrow> False)"

text \<open>
  \<open>_handle_datetime_filter\<close>. The date widget returns a tuple of up to two dates. On a
  column without a timestamp \<open>min()\<close> and \<open>max()\<close> are \<open>NaT\<close>, whose \<open>date()\<close> is \<open>NaT\<close> again
  and differs from every date. \<open>dt.date\<close> gives the dates of the frame's column as
  objects, \<open>NaT\<close> among them, and the comparison of such an object with a date is false
  on \<open>NaT\<close>; when the column has rows and every one of them is \<open>NaT\<close>, the objects are
  read back as a datetime column, whose comparison with a date raises.
\<close>

definition handle_datetime_filter ::
  "dataframe \<Rightarrow> dataframe \<Rightarrow> string \<Rightarrow> int list
     \<Rightarrow> exn + dataframe \<times> bool \<times> detail \<times> notice list" where
  "handle_datetime_filter orig df col date_range =
     (let min_date = (case days orig col of [] \<Rightarrow> None | d # ds \<Rightarrow> Some (fold min ds d));
          max_date = (case days orig col of [] \<Rightarrow> None | d # ds \<Rightarrow> Some (fold max ds d))
      in case date_range of
           [start_date, end_date] \<Rightarrow>
             if Some start_date \<noteq> min_date \<or> Some end_date \<noteq> max_date
             then (if column_of df col \<noteq> [] \<and> days df col = []
                   then Inl (Raised
                          ''Invalid comparison between dtype=datetime64[ns] and date'')
                   else Inr (select_rows (date_mask start_date end_date col) df, True,
                             DateDetail col start_date end_date, []))
             else Inr (df, False, NoDetail, [])
         | _ \<Rightarrow> Inr (df, False, NoDetail, []))"

section \<open>Simple filters\<close>

text \<open>The widgets of \<open>_simple_filters\<close>, those of a column keyed by its name.\<close>

record widgets =
  filter_columns :: "string list"
  numeric_widget :: "string \<Rightarrow> numeric_input"
  categorical_widget :: "string \<Rightarrow> categorical_input"
  date_widget :: "string \<Rightarrow> int list"

text \<open>
  The local variables of the loop of \<open>_simple_filters\<close>. \<open>col_filtered\<close> and
  \<open>filter_detail\<close> are assigned together by a handler and by nothing else, so before the
  first handler has run they are unbound: \<open>last_outcome\<close> is \<open>None\<close>.
\<close>

record progress =
  current_df :: dataframe
  any_applied :: bool
  applied_details :: "detail list"
  last_outcome :: "(bool \<times> detail) option"
  shown :: "notice list"

text \<open>
  The handler that the \<open>if\<close>/\<open>elif\<close> chain picks for a dtype; \<open>None\<close> when no branch
  matches, and then nothing is assigned.
\<close>

definition dispatch ::
  "library \<Rightarrow> dataframe \<Rightarrow> widgets \<Rightarrow> string \<Rightarrow> dtype \<Rightarrow> dataframe
     \<Rightarrow> (exn + dataframe \<times> bool \<times> detail \<times> notice list) option" where
  "dispatch L orig W col t df =
     (if t = Object \<or> t = Category
      then Some (handle_categorical_filter L orig df col (categorical_widget W col))
      else if t = Int64 \<or> t = Float64
      then Some (Inr (handle_numeric_filter orig df col (numeric_widget W col)))
      else if sub_in ''datetime'' (dtype_name t)
      then Some (handle_datetime_filter orig df col (date_widget W col))
      else None)"

text \<open>One pass through the loop body for column \<open>col\<close>.\<close>

definition filter_step ::
  "library \<Rightarrow> dataframe \<Rightarrow> widgets \<Rightarrow> string \<Rightarrow> progress \<Rightarrow> exn + progress" where
  "filter_step L orig W col p =
     (case dtype_of orig col of
        None \<Rightarrow> Inl (KeyError col)
      | Some t \<Rightarrow>
          (case dispatch L orig W col t (current_df p) of
             Some (Inl e) \<Rightarrow> Inl e
           | Some (Inr (df', col_filtered, filter_detail, msgs)) \<Rightarrow>
               Inr (if col_filtered
                    then p\<lparr>current_df := df', any_applied := True,
                           applied_details := applied_details p @ [filter_detail],
                           last_outcome := Some (col_filtered, filter_detail),
                           shown := shown p @ msgs\<rparr>
                    else p\<lparr>current_df := df',
                           last_outcome := Some (col_filtered, filter_detail),
                           shown := shown p @ msgs\<rparr>)
           | None \<Rightarrow>
               (case last_outcome p of
                  None \<Rightarrow> Inl (UnboundLocalError ''col_filtered'')
                | Some (col_filtered, filter_detail) \<Rightarrow>
                    Inr (if col_filtered
                         then p\<lparr>any_applied := True,
                                applied_details := applied_details p @ [filter_detail]\<rparr>
                         else p))))"

fun filter_loop ::
  "library \<Rightarrow> dataframe \<Rightarrow> widgets \<Rightarrow> string list \<Rightarrow> progress \<Rightarrow> exn + progress" where
  "filter_loop L orig W [] p = Inr p"
| "filter_loop L orig W (col # cols) p =
     (case filter_step L orig W col p of
        Inl e \<Rightarrow> Inl e
      | Inr p' \<Rightarrow> filter_loop L orig W cols p')"

text \<open>\<open>_simple_filters\<close>: the frame, whether a filter was applied, the descriptions, and
  the messages shown.\<close>

definition simple_filters ::
  "library \<Rightarrow> session \<Rightarrow> widgets \<Rightarrow> exn + dataframe \<times> bool \<times> detail list \<times> notice list" where
  "simple_filters L s W =
     (if filter_columns W = [] then Inr (original_df s, False, [], [])
      else (case filter_loop L (original_df s) W (filter_columns W)
                   \<lparr>current_df = original_df s, any_applied = False, applied_details = [],
                    last_outcome = None, shown = []\<rparr> of
              Inl e \<Rightarrow> Inl e
            | Inr p \<Rightarrow> Inr (current_df p, any_applied p, applied_details p, shown p)))"

section \<open>The query builder\<close>

text \<open>
  One condition of the query builder as its widgets return it: the column (one of the
  frame's columns, the select box offers no other), the operator, the value of the
  number input as the f-string prints it, the value of the text input, and the
  connective that follows the condition (read only when another condition follows).
\<close>

record condition =
  q_column :: string
  q_operator :: string
  q_number :: string
  q_text :: string
  q_logic :: string

record query_input =
  conditions :: "condition list"
  apply_query :: bool

text \<open>\<open>s.replace(old, new)\<close> for a one-character \<open>old\<close>.\<close>

definition replace_char :: "char \<Rightarrow> string \<Rightarrow> string \<Rightarrow> string" where
  "replace_char old new s = concat (map (\<lambda>c. if c = old then new else [c]) s)"

text \<open>\<open>value.replace("'", "\\'").replace('"', '\\"')\<close>\<close>

definition escape :: "string \<Rightarrow> string" where
  "escape v =
     replace_char (CHR 0x22) [CHR 0x5C, CHR 0x22] (replace_char (CHR 0x27) [CHR 0x5C, CHR 0x27] v)"

text \<open>The columns that \<open>select_dtypes\<close> picks for \<open>np.number\<close> and for object or category.\<close>

definition numeric_cols :: "dataframe \<Rightarrow> string list" where
  "numeric_cols df = map fst (filter (\<lambda>(n, t). t \<in> {Int64, Int32, Float64, Float32}) (dtypes df))"

definition categorical_cols :: "dataframe \<Rightarrow> string list" where
  "categorical_cols df = map fst (filter (\<lambda>(n, t). t \<in> {Object, Category}) (dtypes df))"

definition all_cols :: "dataframe \<Rightarrow> string list" where
  "all_cols df = map fst (dtypes df)"

text \<open>What a condition appends to \<open>query_parts\<close>: one fragment or nothing.\<close>

definition fragment :: "dataframe \<Rightarrow> condition \<Rightarrow> string list" where
  "fragment orig c =
     (if q_column c \<noteq> [] \<and> q_column c \<in> set (numeric_cols orig)
      then [''`'' @ q_column c @ ''` '' @ q_operator c @ '' '' @ q_number c]
      else if q_column c \<noteq> [] \<and> q_column c \<in> set (categorical_cols orig)
      then (if q_text c \<noteq> []
            then (if q_operator c = ''contains''
                  then [''`'' @ q_column c @ ''`.str.contains('' @ quoted (escape (q_text c))
                          @ '', case=False, na=False)'']
                  else [''`'' @ q_column c @ ''` '' @ q_operator c @ '' ''
                          @ quoted (escape (q_text c))])
            else [])
      else (if q_text c \<noteq> []
            then [''`'' @ q_column c @ ''` '' @ q_operator c @ '' '' @ quoted (escape (q_text c))]
            else []))"

text \<open>
  The loop over the conditions, \<open>query_parts\<close> threaded through: the fragment of the
  condition, then, when another condition follows, its connective if \<open>query_parts\<close> is
  not empty.
\<close>

fun build_parts :: "dataframe \<Rightarrow> condition list \<Rightarrow> string list \<Rightarrow> string list" where
  "build_parts orig [] query_parts = query_parts"
| "build_parts orig (c # cs) query_parts =
     (let with_fragment = query_parts @ fragment orig c
      in build_parts orig cs
           (if cs \<noteq> [] \<and> length with_fragment > 0 then with_fragment @ [q_logic c]
            else with_fragment))"

text \<open>\<open>" ".join(parts)\<close>\<close>

fun join_spaces :: "string list \<Rightarrow> string" where
  "join_spaces [] = []"
| "join_spaces [x] = x"
| "join_spaces (x # y # ys) = x @ '' '' @ join_spaces (y # ys)"

text \<open>The ASCII characters that \<open>str.strip()\<close> removes.\<close>

definition is_space :: "char \<Rightarrow> bool" where
  "is_space c = (c \<in> set [CHR 0x20, CHR 0x09, CHR 0x0A, CHR 0x0B, CHR 0x0C, CHR 0x0D,
                           CHR 0x1C, CHR 0x1D, CHR 0x1E, CHR 0x1F])"

definition strip_is_empty :: "string \<Rightarrow> bool" where
  "strip_is_empty s = list_all is_space s"

text \<open>The expression shown to the user: the parts without one trailing connective, joined.\<close>

definition final_query :: "string list \<Rightarrow> string" where
  "final_query query_parts =
     join_spaces (if last query_parts \<in> set [''and'', ''or''] then butlast query_parts
                  else query_parts)"

text \<open>\<open>_query_builder\<close>: the frame, whether the query was applied, the descriptions, and
  the messages shown.\<close>

definition query_builder ::
  "library \<Rightarrow> session \<Rightarrow> query_input \<Rightarrow> dataframe \<times> bool \<times> detail list \<times> notice list" where
  "query_builder L s ui =
     (if empty_df (original_df s) then (original_df s, False, [], [NoData])
      else if all_cols (original_df s) = [] then (original_df s, False, [], [NoColumns])
      else (let query_parts = build_parts (original_df s) (conditions ui) []
            in if query_parts \<noteq> [] \<and> \<not> strip_is_empty (final_query query_parts)
                  \<and> apply_query ui
               then (case df_query L (original_df s) (final_query query_parts) of
                       Inr filtered \<Rightarrow>
                         (filtered, True, [QueryDetail (final_query query_parts)],
                          [QueryApplied (len filtered)])
                     | Inl e \<Rightarrow>
                         (original_df s, False, [], [QueryError (exn_message e), QueryHint]))
               else (original_df s, False, [], [])))"

section \<open>Joining datasets\<close>

text \<open>
  The widgets of \<open>_join_datasets\<close>. A select box returns one of its options, or \<open>None\<close>
  when it has none. The pool of datasets is \<open>st.session_state['datasets']\<close>, a dictionary
  in insertion order.
\<close>

record join_input =
  left_dataset :: "string option"
  right_dataset :: "string option"
  join_type :: join_kind
  left_key :: "string option"
  right_key :: "string option"
  auto_fix :: bool
  join_button :: bool

text \<open>Python's truth value of a select box result.\<close>

fun truthy :: "string option \<Rightarrow> bool" where
  "truthy None = False"
| "truthy (Some v) = (v \<noteq> [])"

text \<open>
  The inner \<open>try\<close> of the join: the conversions of the key columns, and the warning when
  one of them raises. An assignment made before the failing conversion stays.
\<close>

definition auto_fix_types ::
  "library \<Rightarrow> dataframe \<Rightarrow> dataframe \<Rightarrow> string \<Rightarrow> string \<Rightarrow> dtype \<Rightarrow> dtype
     \<Rightarrow> dataframe \<times> dataframe \<times> notice list" where
  "auto_fix_types L left_prep right_prep lk rk left_dtype right_dtype =
     (if ''object'' \<in> set [dtype_name left_dtype, dtype_name right_dtype]
      then (case astype L left_prep lk ToStr of
              Inl e \<Rightarrow> (left_prep, right_prep, [ConversionFailed (exn_message e)])
            | Inr left' \<Rightarrow>
                (case astype L right_prep rk ToStr of
                   Inl e \<Rightarrow> (left', right_prep, [ConversionFailed (exn_message e)])
                 | Inr right' \<Rightarrow> (left', right', [])))
      else if sub_in ''int'' (dtype_name left_dtype) \<and> sub_in ''float'' (dtype_name right_dtype)
      then (case astype L left_prep lk ToFloat of
              Inl e \<Rightarrow> (left_prep, right_prep, [ConversionFailed (exn_message e)])
            | Inr left' \<Rightarrow> (left', right_prep, []))
      else if sub_in ''float'' (dtype_name left_dtype) \<and> sub_in ''int'' (dtype_name right_dtype)
      then (case astype L right_prep rk ToFloat of
              Inl e \<Rightarrow> (left_prep, right_prep, [ConversionFailed (exn_message e)])
            | Inr right' \<Rightarrow> (left_prep, right', []))
      else (left_prep, right_prep, []))"

text \<open>
  The outer \<open>try\<close> up to the assignment of \<open>self.original_df\<close>: the conversions when
  auto-fix is on and the types differ, the merge, and the efficiency metric
  \<open>len(joined_df) / max(len(left_df), len(right_df)) * 100\<close>, whose division raises when
  both datasets have no rows. The result is the joined frame or the exception that the
  \<open>except\<close> clause receives, with the messages shown on the way.
\<close>

definition try_join ::
  "library \<Rightarrow> dataframe \<Rightarrow> dataframe \<Rightarrow> string \<Rightarrow> string \<Rightarrow> dtype \<Rightarrow> dtype \<Rightarrow> join_kind
     \<Rightarrow> bool \<Rightarrow> (exn + dataframe) \<times> notice list" where
  "try_join L left_df right_df lk rk left_dtype right_dtype how fix =
     (let compatibility = (dtype_name left_dtype = dtype_name right_dtype);
          (left_prep, right_prep, msgs) =
             (if fix \<and> \<not> compatibility
              then auto_fix_types L left_df right_df lk rk left_dtype right_dtype
              else (left_df, right_df, []))
      in case pd_merge L left_prep right_prep lk rk how of
           Inl e \<Rightarrow> (Inl e, msgs)
         | Inr joined_df \<Rightarrow>
             if max (len left_df) (len right_df) = 0 then (Inl ZeroDivisionError, msgs)
             else (Inr joined_df, msgs))"

text \<open>
  \<open>_join_datasets\<close>: the object state after the call, the frame, whether a join was
  applied, the descriptions, and the messages shown. The lookups of a dataset and of a
  key column stand outside the \<open>try\<close>.
\<close>

definition join_datasets ::
  "library \<Rightarrow> session \<Rightarrow> (string \<times> dataframe) list \<Rightarrow> join_input
     \<Rightarrow> exn + session \<times> dataframe \<times> bool \<times> detail list \<times> notice list" where
  "join_datasets L s datasets ui =
     (if length datasets < 2 then Inr (s, original_df s, False, [], [NeedTwoDatasets])
      else if \<not> (truthy (left_dataset ui) \<and> truthy (right_dataset ui))
      then Inr (s, original_df s, False, [], [])
      else (let l = the (left_dataset ui); r = the (right_dataset ui)
            in case map_of datasets l of
                 None \<Rightarrow> Inl (KeyError l)
               | Some left_df \<Rightarrow>
              (case map_of datasets r of
                 None \<Rightarrow> Inl (KeyError r)
               | Some right_df \<Rightarrow>
              (if \<not> (truthy (left_key ui) \<and> truthy (right_key ui))
               then Inr (s, original_df s, False, [], [])
               else (let lk = the (left_key ui); rk = the (right_key ui)
                     in case dtype_of left_df lk of
                          None \<Rightarrow> Inl (KeyError lk)
                        | Some left_dtype \<Rightarrow>
                       (case dtype_of right_df rk of
                          None \<Rightarrow> Inl (KeyError rk)
                        | Some right_dtype \<Rightarrow>
                       (let check = (if dtype_name left_dtype = dtype_name right_dtype
                                     then [CompatibleTypes left_dtype]
                                     else [TypeMismatch left_dtype right_dtype])
                        in if join_button ui
                           then (case try_join L left_df right_df lk rk left_dtype right_dtype
                                        (join_type ui) (auto_fix ui) of
                                   (Inr joined_df, msgs) \<Rightarrow>
                                     Inr (s\<lparr>original_df := joined_df\<rparr>, joined_df, True,
                                          [JoinDetail l r lk rk], check @ msgs)
                                 | (Inl e, msgs) \<Rightarrow>
                                     Inr (s, original_df s, False, [],
                                          check @ msgs @ [JoinFailed (exn_message e)]
                                          @ (if sub_in ''dtype'' (lower (exn_message e))
                                             then [AutoFixHint] else [])))
                           else Inr (s, original_df s, False, [], check))))))))"

text \<open>
  A join request that reaches the \<open>try\<close>: at least two datasets in the pool, both
  datasets and both keys selected and found, and the join button pressed.
\<close>

definition join_requested ::
  "(string \<times> dataframe) list \<Rightarrow> join_input \<Rightarrow> string \<Rightarrow> string \<Rightarrow> string \<Rightarrow> string
     \<Rightarrow> dataframe \<Rightarrow> dataframe \<Rightarrow> dtype \<Rightarrow> dtype \<Rightarrow> bool" where
  "join_requested datasets ui l r lk rk left_df right_df left_dtype right_dtype =
     (2 \<le> length datasets
      \<and> left_dataset ui = Some l \<and> l \<noteq> [] \<and> right_dataset ui = Some r \<and> r \<noteq> []
      \<and> map_of datasets l = Some left_df \<and> map_of datasets r = Some right_df
      \<and> left_key ui = Some lk \<and> lk \<noteq> [] \<and> right_key ui = Some rk \<and> rk \<noteq> []
      \<and> dtype_of left_df lk = Some left_dtype \<and> dtype_of right_df rk = Some right_dtype
      \<and> join_button ui)"

section \<open>The entry point\<close>

record ui =
  filter_type :: mode
  filter_widgets :: widgets
  query_widgets :: query_input
  join_widgets :: join_input

text \<open>
  \<open>render_filter_ui\<close>: the operation chosen, then the update of \<open>filtered_df\<close> and
  \<open>filter_info\<close>, then the summary line, whose percentage divides by the number of rows
  of \<open>original_df\<close>.
\<close>

definition render_filter_ui ::
  "library \<Rightarrow> session \<Rightarrow> (string \<times> dataframe) list \<Rightarrow> ui
     \<Rightarrow> exn + session \<times> dataframe \<times> bool \<times> notice list" where
  "render_filter_ui L s datasets U =
     (case (case filter_type U of
              SimpleFilters \<Rightarrow>
                (case simple_filters L s (filter_widgets U) of
                   Inl e \<Rightarrow> Inl e
                 | Inr res \<Rightarrow> Inr (s, res))
            | QueryBuilder \<Rightarrow> Inr (s, query_builder L s (query_widgets U))
            | JoinDatasets \<Rightarrow> join_datasets L s datasets (join_widgets U)) of
        Inl e \<Rightarrow> Inl e
      | Inr (s1, filtered, applied, details, msgs) \<Rightarrow>
          (let s2 = s1\<lparr>filtered_df := filtered,
                      filter_info := \<lparr>active = applied, ftype = Some (filter_type U),
                        original_count = len (original_df s1),
                        filtered_count = len filtered, filters_applied = details\<rparr>\<rparr>
           in if applied
              then (if len (original_df s1) = 0 then Inl ZeroDivisionError
                    else Inr (s2, filtered, applied, msgs @ [Filtered (len filtered)]))
              else Inr (s2, filtered, applied, msgs)))"

section \<open>Example data\<close>

text \<open>The column \<open>age\<close> with the values 18, 25, 40 and 60.\<close>

definition ages :: dataframe where
  "ages = \<lparr>dtypes = [(''age'', Int64)],
            rows = [[(''age'', Whole 18)], [(''age'', Whole 25)],
                    [(''age'', Whole 40)], [(''age'', Whole 60)]]\<rparr>"

text \<open>The manual inputs set to \<open>a\<close> and \<open>b\<close>.\<close>

definition manual_range :: "real \<Rightarrow> real \<Rightarrow> numeric_input" where
  "manual_range a b = \<lparr>filter_method = ManualInput, slider_range = (Fin a, Fin b),
     manual_min = Fin a, manual_max = Fin b\<rparr>"

text \<open>
  A library for the examples. Its merge and its query return what the example says pandas
  returns there. Its patterns are those without a special character other than the dot:
  for them the compiled test is the case-insensitive search of \<open>re\<close>, where a dot stands
  for any character but a newline; no example uses another pattern or a conversion.
\<close>

fun matches_at :: "string \<Rightarrow> string \<Rightarrow> bool" where
  "matches_at [] s = True"
| "matches_at (p # ps) [] = False"
| "matches_at (p # ps) (c # cs) =
     ((p = c \<or> p = CHR ''.'' \<and> c \<noteq> CHR 0x0A) \<and> matches_at ps cs)"

fun matches_somewhere :: "string \<Rightarrow> string \<Rightarrow> bool" where
  "matches_somewhere p [] = matches_at p []"
| "matches_somewhere p (c # cs) = (matches_at p (c # cs) \<or> matches_somewhere p cs)"

definition plain_pattern :: "string \<Rightarrow> bool" where
  "plain_pattern pat = list_all (\<lambda>c. c \<notin> set (CHR 0x5C # ''^$*+?{}[]|()'')) pat"

definition example_compile :: "string \<Rightarrow> exn + (string \<Rightarrow> bool)" where
  "example_compile pat =
     (if plain_pattern pat then Inr (\<lambda>s. matches_somewhere (lower pat) (lower s))
      else Inl (Raised ''a pattern that no example uses''))"

definition example_library :: "exn + dataframe \<Rightarrow> exn + dataframe \<Rightarrow> library" where
  "example_library merged queried =
     \<lparr>pd_merge = (\<lambda>left right left_on right_on how. merged),
      df_query = (\<lambda>df expr. queried),
      re_compile = example_compile,
      astype = (\<lambda>df col target. Inr df)\<rparr>"

text \<open>The library of an example that neither merges nor queries.\<close>

definition plain_library :: library where
  "plain_library = example_library (Inl (Raised ''no merge'')) (Inl (Raised ''no query''))"

text \<open>The local variables of \<open>_simple_filters\<close> before the loop.\<close>

definition start :: "dataframe \<Rightarrow> progress" where
  "start df = \<lparr>current_df = df, any_applied = False, applied_details = [],
     last_outcome = None, shown = []\<rparr>"

text \<open>The widgets with the one column \<open>col\<close> selected and the manual range \<open>a\<close> to \<open>b\<close>.\<close>

definition range_widgets :: "string \<Rightarrow> real \<Rightarrow> real \<Rightarrow> widgets" where
  "range_widgets col a b =
     \<lparr>filter_columns = [col], numeric_widget = (\<lambda>c. manual_range a b),
      categorical_widget = (\<lambda>c. \<lparr>selected_values = [], search_term = []\<rparr>),
      date_widget = (\<lambda>c. [])\<rparr>"

text \<open>People with an age and a city.\<close>

definition people :: dataframe where
  "people = \<lparr>dtypes = [(''age'', Int64), (''city'', Object)],
     rows = [[(''age'', Whole 18), (''city'', Str ''NY'')],
             [(''age'', Whole 25), (''city'', Str ''LA'')],
             [(''age'', Whole 40), (''city'', Str ''NY'')],
             [(''age'', Whole 60), (''city'', Str ''SF'')]]\<rparr>"

text \<open>The condition \<open>city == v\<close>, followed by \<open>and\<close>.\<close>

definition city_is :: "string \<Rightarrow> condition" where
  "city_is v = \<lparr>q_column = ''city'', q_operator = ''=='', q_number = ''0.0'', q_text = v,
     q_logic = ''and''\<rparr>"

text \<open>A frame with a boolean column.\<close>

definition flags :: dataframe where
  "flags = \<lparr>dtypes = [(''active'', Bool)],
     rows = [[(''active'', Flag True)], [(''active'', Flag False)]]\<rparr>"

text \<open>A library whose query raises, as \<open>DataFrame.query\<close> does on an expression it cannot
  parse or evaluate.\<close>

definition failing_query :: library where
  "failing_query = example_library (Inl (Raised ''no merge'')) (Inl (Raised ''invalid syntax''))"

text \<open>The query builder with the conditions \<open>cs\<close> and the apply button pressed.\<close>

definition apply_conditions :: "condition list \<Rightarrow> query_input" where
  "apply_conditions cs = \<lparr>conditions = cs, apply_query = True\<rparr>"

text \<open>The simple filters with the boolean column selected.\<close>

definition flag_widgets :: widgets where
  "flag_widgets = range_widgets ''active'' 0 1"

text \<open>The join widgets set for an inner join, with the button pressed.\<close>

definition join_request :: "string \<Rightarrow> string \<Rightarrow> string \<Rightarrow> string \<Rightarrow> bool \<Rightarrow> join_input" where
  "join_request l r lk rk fix =
     \<lparr>left_dataset = Some l, right_dataset = Some r, join_type = Inner,
      left_key = Some lk, right_key = Some rk, auto_fix = fix, join_button = True\<rparr>"

text \<open>Orders with an integer customer key, customers with a float key, and the frame
  pandas returns for their inner join: integer and float keys merge.\<close>

definition orders :: dataframe where
  "orders = \<lparr>dtypes = [(''customer_id'', Int64), (''amount'', Float64)],
     rows = [[(''customer_id'', Whole 1), (''amount'', Num (Fin 10.5))],
             [(''customer_id'', Whole 2), (''amount'', Num (Fin 20))]]\<rparr>"

definition customers :: dataframe where
  "customers = \<lparr>dtypes = [(''id'', Float64), (''name'', Object)],
     rows = [[(''id'', Num (Fin 1)), (''name'', Str ''Ann'')],
             [(''id'', Num (Fin 3)), (''name'', Str ''Bob'')]]\<rparr>"

definition orders_customers :: dataframe where
  "orders_customers =
     \<lparr>dtypes = [(''customer_id'', Int64), (''amount'', Float64), (''id'', Float64),
                (''name'', Object)],
      rows = [[(''customer_id'', Whole 1), (''amount'', Num (Fin 10.5)),
               (''id'', Num (Fin 1)), (''name'', Str ''Ann'')]]\<rparr>"

text \<open>Customers whose key is text; pandas refuses to merge it with an integer key.\<close>

definition customers_text :: dataframe where
  "customers_text = \<lparr>dtypes = [(''id'', Object), (''name'', Object)],
     rows = [[(''id'', Str ''1''), (''name'', Str ''Ann'')],
             [(''id'', Str ''3''), (''name'', Str ''Bob'')]]\<rparr>"

text \<open>The same tables without rows, and their (empty) inner join.\<close>

definition no_orders :: dataframe where
  "no_orders = \<lparr>dtypes = [(''customer_id'', Int64), (''amount'', Float64)], rows = []\<rparr>"

definition no_customers :: dataframe where
  "no_customers = \<lparr>dtypes = [(''id'', Int64), (''name'', Object)], rows = []\<rparr>"

definition nothing_joined :: dataframe where
  "nothing_joined =
     \<lparr>dtypes = [(''customer_id'', Int64), (''amount'', Float64), (''id'', Int64),
                (''name'', Object)], rows = []\<rparr>"

text \<open>A library whose merge returns \<open>joined\<close>, and one whose merge raises.\<close>

definition merging :: "dataframe \<Rightarrow> library" where
  "merging joined = example_library (Inr joined) (Inl (Raised ''no query''))"

definition rejecting_merge :: library where
  "rejecting_merge = example_library
     (Inl (Raised ''You are trying to merge on int64 and object columns for key customer_id. If you wish to proceed you should use pd.concat''))
     (Inl (Raised ''no query''))"

text \<open>
  A text column with more than 50 distinct values: 51 strings, among them \<open>abc\<close> and
  \<open>a.c\<close>, and one missing value.
\<close>

definition catalog :: dataframe where
  "catalog = \<lparr>dtypes = [(''code'', Object)],
     rows = [[(''code'', Str ''abc'')], [(''code'', Str ''a.c'')], [(''code'', Missing)],
             [(''code'', Str ''k00'')], [(''code'', Str ''k01'')],
             [(''code'', Str ''k02'')], [(''code'', Str ''k03'')],
             [(''code'', Str ''k04'')], [(''code'', Str ''k05'')],
             [(''code'', Str ''k06'')], [(''code'', Str ''k07'')],
             [(''code'', Str ''k08'')], [(''code'', Str ''k09'')],
             [(''code'', Str ''k10'')], [(''code'', Str ''k11'')],
             [(''code'', Str ''k12'')], [(''code'', Str ''k13'')],
             [(''code'', Str ''k14'')], [(''code'', Str ''k15'')],
             [(''code'', Str ''k16'')], [(''code'', Str ''k17'')],
             [(''code'', Str ''k18'')], [(''code'', Str ''k19'')],
             [(''code'', Str ''k20'')], [(''code'', Str ''k21'')],
             [(''code'', Str ''k22'')], [(''code'', Str ''k23'')],
             [(''code'', Str ''k24'')], [(''code'', Str ''k25'')],
             [(''code'', Str ''k26'')], [(''code'', Str ''k27'')],
             [(''code'', Str ''k28'')], [(''code'', Str ''k29'')],
             [(''code'', Str ''k30'')], [(''code'', Str ''k31'')],
             [(''code'', Str ''k32'')], [(''code'', Str ''k33'')],
             [(''code'', Str ''k34'')], [(''code'', Str ''k35'')],
             [(''code'', Str ''k36'')], [(''code'', Str ''k37'')],
             [(''code'', Str ''k38'')], [(''code'', Str ''k39'')],
             [(''code'', Str ''k40'')], [(''code'', Str ''k41'')],
             [(''code'', Str ''k42'')], [(''code'', Str ''k43'')],
             [(''code'', Str ''k44'')], [(''code'', Str ''k45'')],
             [(''code'', Str ''k46'')], [(''code'', Str ''k47'')],
             [(''code'', Str ''k48'')]]\<rparr>"

text \<open>The search box of a column holding \<open>term\<close>.\<close>

definition searching :: "string \<Rightarrow> categorical_input" where
  "searching term = \<lparr>selected_values = [], search_term = term\<rparr>"

text \<open>A float column with a missing value.\<close>

definition readings :: dataframe where
  "readings = \<lparr>dtypes = [(''temp'', Float64)],
     rows = [[(''temp'', Num (Fin 1))], [(''temp'', Num NaN)], [(''temp'', Num (Fin 3))],
             [(''temp'', Num (Fin 5))]]\<rparr>"

text \<open>A float column out of order, with a missing value.\<close>

definition samples :: dataframe where
  "samples = \<lparr>dtypes = [(''level'', Float64)],
     rows = [[(''level'', Num (Fin 3))], [(''level'', Num NaN)], [(''level'', Num (Fin 1))],
             [(''level'', Num (Fin 5))]]\<rparr>"

text \<open>An integer column with a value above \<open>2^53\<close>, which no float64 equals.\<close>

definition big_ids :: dataframe where
  "big_ids = \<lparr>dtypes = [(''id'', Int64)],
     rows = [[(''id'', Whole 9007199254740993)], [(''id'', Whole 5)]]\<rparr>"

section \<open>Properties\<close>

lemma fle_NaN_right [simp]: "fle a NaN = False"
  by (cases a) simp_all

lemma fle_not_NaN: "fle a b \<Longrightarrow> a \<noteq> NaN \<and> b \<noteq> NaN"
  by (cases a; cases b) simp_all

lemma fle_antisym: "fle a b \<Longrightarrow> fle b a \<Longrightarrow> a = b"
  by (cases a; cases b) simp_all

lemma fle_imp_not_fgt: "fle a b \<Longrightarrow> \<not> fgt a b"
  by (auto simp: fgt_def feq_def dest: fle_antisym fle_not_NaN)

lemma fle_total: "a \<noteq> NaN \<Longrightarrow> b \<noteq> NaN \<Longrightarrow> fle a b \<or> fle b a"
  by (cases a; cases b) auto

lemma fle_refl: "a \<noteq> NaN \<Longrightarrow> fle a a"
  by (cases a) auto

lemma fle_trans: "fle a b \<Longrightarrow> fle b c \<Longrightarrow> fle a c"
  by (cases a; cases b; cases c) auto

subsection \<open>Reset\<close>

text \<open>
  Claim C9. In every state of the object, \<open>clear_filters\<close> returns the current original
  frame, leaves \<open>original_df\<close> alone, sets \<open>filtered_df\<close> to it, and resets the metadata:
  inactive, no kind, both counts the number of rows of the original, no descriptions.
\<close>

theorem clear_filters_resets:
  "snd (clear_filters s) = original_df s
   \<and> original_df (fst (clear_filters s)) = original_df s
   \<and> filtered_df (fst (clear_filters s)) = original_df s
   \<and> filter_info (fst (clear_filters s)) =
       \<lparr>active = False, ftype = None, original_count = len (original_df s),
        filtered_count = len (original_df s), filters_applied = []\<rparr>"
  by (simp add: clear_filters_def Let_def)

subsection \<open>The numeric range filter\<close>

text \<open>
  The conversion of an integer to float64 is the identity below \<open>2^53\<close>, so there the float
  that a comparison reads from a cell is the value of the cell; above, it rounds.
\<close>

lemma float64_of_int_exact:
  assumes "\<bar>n\<bar> < 2 ^ 53"
  shows "float64_of_int n = real_of_int n"
proof -
  define m where "m = nat \<bar>n\<bar>"
  have small: "m < 2 ^ 53"
    using assms by (simp add: m_def nat_less_iff)
  have none: "\<not> (2::nat) ^ (53 + k) \<le> m" for k
  proof
    assume "(2::nat) ^ (53 + k) \<le> m"
    moreover have "(2::nat) ^ 53 \<le> 2 ^ (53 + k)"
      by (rule power_increasing) simp_all
    ultimately show False using small by linarith
  qed
  have e: "length (filter (\<lambda>k. 2 ^ (53 + k) \<le> m) [0, 1, 2, 3, 4, 5, 6, 7, 8, 9, 10]) = 0"
    unfolding length_0_conv filter_empty_conv using none by blast
  have "float64_of_int n = (if n < 0 then - real m else real m)"
    unfolding float64_of_int_def Let_def m_def [symmetric] e by simp
  then show ?thesis by (simp add: m_def)
qed

lemma fnum_exact:
  "is_float c \<or> (\<exists>n. c = Whole n \<and> \<bar>n\<bar> < 2 ^ 53) \<Longrightarrow> fnum c = exact c"
  by (cases c) (auto simp: float64_of_int_exact)

lemma float64_of_int_rounds: "float64_of_int 9007199254740993 = 9007199254740992"
  by (simp add: float64_of_int_def Let_def)

lemma exact_fnum_present: "exact c \<noteq> NaN \<Longrightarrow> fnum c \<noteq> NaN"
  by (cases c) auto

text \<open>
  The fold of \<open>min()\<close> ends on a value of the column that is not missing and that none of
  the others lies below; the fold of \<open>max()\<close> alike, with none above.
\<close>

lemma foldl_cell_min:
  assumes "exact c \<noteq> NaN" "\<forall>x\<in>set cs. exact x \<noteq> NaN"
  shows "foldl cell_min c cs \<in> set (c # cs)
         \<and> (\<forall>x\<in>set (c # cs). fle (exact (foldl cell_min c cs)) (exact x))"
  using assms
proof (induction cs arbitrary: c)
  case Nil
  then show ?case by (simp add: fle_refl)
next
  case (Cons d ds)
  have d: "exact d \<noteq> NaN" and ds: "\<forall>x\<in>set ds. exact x \<noteq> NaN"
    using Cons.prems(2) by simp_all
  show ?case
  proof (cases "fle (exact c) (exact d)")
    case True
    then have step: "cell_min c d = c" by (simp add: cell_min_def)
    have ih: "foldl cell_min c ds \<in> set (c # ds)
         \<and> (\<forall>x\<in>set (c # ds). fle (exact (foldl cell_min c ds)) (exact x))"
      using Cons.IH [OF Cons.prems(1) ds] .
    then have "fle (exact (foldl cell_min c ds)) (exact d)"
      using True fle_trans by (metis list.set_intros(1))
    then show ?thesis using ih by (auto simp: step)
  next
    case False
    then have step: "cell_min c d = d" by (simp add: cell_min_def)
    have dc: "fle (exact d) (exact c)"
      using False fle_total [OF Cons.prems(1) d] by blast
    have ih: "foldl cell_min d ds \<in> set (d # ds)
         \<and> (\<forall>x\<in>set (d # ds). fle (exact (foldl cell_min d ds)) (exact x))"
      using Cons.IH [OF d ds] .
    then have "fle (exact (foldl cell_min d ds)) (exact c)"
      using dc fle_trans by (metis list.set_intros(1))
    then show ?thesis using ih by (auto simp: step)
  qed
qed

lemma foldl_cell_max:
  assumes "exact c \<noteq> NaN" "\<forall>x\<in>set cs. exact x \<noteq> NaN"
  shows "foldl cell_max c cs \<in> set (c # cs)
         \<and> (\<forall>x\<in>set (c # cs). fle (exact x) (exact (foldl cell_max c cs)))"
  using assms
proof (induction cs arbitrary: c)
  case Nil
  then show ?case by (simp add: fle_refl)
next
  case (Cons d ds)
  have d: "exact d \<noteq> NaN" and ds: "\<forall>x\<in>set ds. exact x \<noteq> NaN"
    using Cons.prems(2) by simp_all
  show ?case
  proof (cases "fle (exact c) (exact d)")
    case True
    then have step: "cell_max c d = d" by (simp add: cell_max_def)
    have ih: "foldl cell_max d ds \<in> set (d # ds)
         \<and> (\<forall>x\<in>set (d # ds). fle (exact x) (exact (foldl cell_max d ds)))"
      using Cons.IH [OF d ds] .
    then have "fle (exact c) (exact (foldl cell_max d ds))"
      using True fle_trans by (metis list.set_intros(1))
    then show ?thesis using ih by (auto simp: step)
  next
    case False
    then have step: "cell_max c d = c" by (simp add: cell_max_def)
    have dc: "fle (exact d) (exact c)"
      using False fle_total [OF Cons.prems(1) d] by blast
    have ih: "foldl cell_max c ds \<in> set (c # ds)
         \<and> (\<forall>x\<in>set (c # ds). fle (exact x) (exact (foldl cell_max c ds)))"
      using Cons.IH [OF Cons.prems(1) ds] .
    then have "fle (exact d) (exact (foldl cell_max c ds))"
      using dc fle_trans by (metis list.set_intros(1))
    then show ?thesis using ih by (auto simp: step)
  qed
qed

lemma uniform_same_float:
  assumes "uniform_column df col" "c \<in> set (column_of df col)" "c' \<in> set (column_of df col)"
    "exact c = exact c'" "exact c \<noteq> NaN"
  shows "fnum c = fnum c'"
  using assms by (cases c; cases c') (auto simp: uniform_column_def list_all_iff)

text \<open>
  So the test of the code against \<open>min_val\<close> is the test whether the bound is the minimum
  of the column, and the test against \<open>max_val\<close> whether it is the maximum.
\<close>

lemma column_min_is_min:
  assumes "uniform_column df col"
  shows "feq m (column_min df col) \<longleftrightarrow> is_column_min df col m"
proof (cases "present_cells df col")
  case Nil
  then have "\<forall>c\<in>set (column_of df col). exact c = NaN"
    by (simp add: present_cells_def filter_empty_conv)
  then show ?thesis
    by (auto simp: column_min_def Nil feq_def is_column_min_def list_ex_iff)
next
  case (Cons c cs)
  define best where "best = foldl cell_min c cs"
  have members: "set (c # cs) = {x \<in> set (column_of df col). exact x \<noteq> NaN}"
    using Cons by (metis present_cells_def set_filter)
  have c: "exact c \<noteq> NaN" and cs: "\<forall>x\<in>set cs. exact x \<noteq> NaN"
    using members by auto
  have best: "best \<in> set (c # cs)" "\<forall>x\<in>set (c # cs). fle (exact best) (exact x)"
    using foldl_cell_min [OF c cs] by (simp_all add: best_def)
  have best_in: "best \<in> set (column_of df col)" "exact best \<noteq> NaN"
    using best(1) members by auto
  have best_least: "\<forall>x\<in>set (column_of df col). exact x = NaN \<or> fle (exact best) (exact x)"
    using best(2) members by auto
  have res: "column_min df col = fnum best"
    by (simp add: column_min_def Cons best_def)
  show ?thesis
  proof
    assume "feq m (column_min df col)"
    then have "fnum best = m" by (simp add: feq_def res)
    then show "is_column_min df col m"
      using best_in best_least by (auto simp: is_column_min_def list_ex_iff list_all_iff)
  next
    assume "is_column_min df col m"
    then obtain d where d: "d \<in> set (column_of df col)" "exact d \<noteq> NaN" "fnum d = m"
      "\<forall>x\<in>set (column_of df col). exact x = NaN \<or> fle (exact d) (exact x)"
      by (auto simp: is_column_min_def list_ex_iff list_all_iff)
    have "fle (exact d) (exact best)" "fle (exact best) (exact d)"
      using d best_in best_least by auto
    then have "exact d = exact best" by (rule fle_antisym)
    then have "fnum d = fnum best"
      using uniform_same_float [OF assms d(1) best_in(1)] d(2) by simp
    then show "feq m (column_min df col)"
      using d(2,3) exact_fnum_present [of d] by (simp add: feq_def res)
  qed
qed

lemma column_max_is_max:
  assumes "uniform_column df col"
  shows "feq m (column_max df col) \<longleftrightarrow> is_column_max df col m"
proof (cases "present_cells df col")
  case Nil
  then have "\<forall>c\<in>set (column_of df col). exact c = NaN"
    by (simp add: present_cells_def filter_empty_conv)
  then show ?thesis
    by (auto simp: column_max_def Nil feq_def is_column_max_def list_ex_iff)
next
  case (Cons c cs)
  define best where "best = foldl cell_max c cs"
  have members: "set (c # cs) = {x \<in> set (column_of df col). exact x \<noteq> NaN}"
    using Cons by (metis present_cells_def set_filter)
  have c: "exact c \<noteq> NaN" and cs: "\<forall>x\<in>set cs. exact x \<noteq> NaN"
    using members by auto
  have best: "best \<in> set (c # cs)" "\<forall>x\<in>set (c # cs). fle (exact x) (exact best)"
    using foldl_cell_max [OF c cs] by (simp_all add: best_def)
  have best_in: "best \<in> set (column_of df col)" "exact best \<noteq> NaN"
    using best(1) members by auto
  have best_most: "\<forall>x\<in>set (column_of df col). exact x = NaN \<or> fle (exact x) (exact best)"
    using best(2) members by auto
  have res: "column_max df col = fnum best"
    by (simp add: column_max_def Cons best_def)
  show ?thesis
  proof
    assume "feq m (column_max df col)"
    then have "fnum best = m" by (simp add: feq_def res)
    then show "is_column_max df col m"
      using best_in best_most by (auto simp: is_column_max_def list_ex_iff list_all_iff)
  next
    assume "is_column_max df col m"
    then obtain d where d: "d \<in> set (column_of df col)" "exact d \<noteq> NaN" "fnum d = m"
      "\<forall>x\<in>set (column_of df col). exact x = NaN \<or> fle (exact x) (exact d)"
      by (auto simp: is_column_max_def list_ex_iff list_all_iff)
    have "fle (exact d) (exact best)" "fle (exact best) (exact d)"
      using d best_in best_most by auto
    then have "exact d = exact best" by (rule fle_antisym)
    then have "fnum d = fnum best"
      using uniform_same_float [OF assms d(1) best_in(1)] d(2) by simp
    then show "feq m (column_max df col)"
      using d(2,3) exact_fnum_present [of d] by (simp add: feq_def res)
  qed
qed

text \<open>
  Claim C1, amended. The comparisons of the filter are made on float64: an integer is
  converted before it is compared. When the selected bounds satisfy
  \<open>final_min \<le> final_max\<close>: if they are the minimum and the maximum of the original
  column, as floats, the frame passed in is returned unchanged and nothing is applied;
  otherwise the result is the rows of the frame passed in, in order, whose value in the
  column, converted to float64, lies between \<open>final_min\<close> and \<open>final_max\<close>, both
  included, and the filter counts as applied.
\<close>

theorem numeric_filter_range:
  assumes chosen: "chosen_range ui = (final_min, final_max)"
    and ordered: "fle final_min final_max"
    and typed: "uniform_column orig col"
  shows "handle_numeric_filter orig df col ui =
     (if is_column_min orig col final_min \<and> is_column_max orig col final_max
      then (df, False, NoDetail, [])
      else (let kept = select_rows (\<lambda>r. fle final_min (fnum (cell_at r col))
                                           \<and> fle (fnum (cell_at r col)) final_max) df
            in (kept, True, RangeDetail col final_min final_max, [FilterApplied (len kept)])))"
proof -
  have not_above: "\<not> fgt final_min final_max"
    using ordered by (rule fle_imp_not_fgt)
  have lo: "fne final_min (column_min orig col) \<longleftrightarrow> \<not> is_column_min orig col final_min"
    by (simp add: fne_def column_min_is_min [OF typed])
  have hi: "fne final_max (column_max orig col) \<longleftrightarrow> \<not> is_column_max orig col final_max"
    by (simp add: fne_def column_max_is_max [OF typed])
  show ?thesis
    unfolding handle_numeric_filter_def Let_def chosen prod.case lo hi fge_def
    using not_above by simp
qed

lemma samples_column:
  "uniform_column samples ''level''"
  "is_column_min samples ''level'' (Fin 1)"
  "is_column_max samples ''level'' (Fin 5)"
  "\<not> is_column_max samples ''level'' (Fin 3)"
  by (simp_all add: uniform_column_def is_column_min_def is_column_max_def column_of_def
      cell_at_def samples_def)

lemma ages_column:
  "uniform_column ages ''age''"
  "is_column_min ages ''age'' (Fin 18)"
  "is_column_max ages ''age'' (Fin 60)"
  "\<not> is_column_min ages ''age'' (Fin 25)"
  by (simp_all add: uniform_column_def is_column_min_def is_column_max_def column_of_def
      cell_at_def ages_def float64_of_int_exact)

lemma manual_range_chosen: "chosen_range (manual_range a b) = (Fin a, Fin b)"
  by (simp add: chosen_range_def manual_range_def)

text \<open>
  On the levels 3, NaN, 1, 5 the full range 1 to 5 applies nothing and the range 1 to 3
  keeps the rows 3 and 1. On the ages 18, 25, 40, 60 the range 25 to 40 keeps two rows
  and the full range 18 to 60 applies nothing.
\<close>

theorem numeric_filter_range_witness:
  "fle (Fin 1) (Fin 5) \<and> uniform_column samples ''level''
   \<and> handle_numeric_filter samples samples ''level'' (manual_range 1 5) =
       (samples, False, NoDetail, [])
   \<and> fle (Fin 1) (Fin 3)
   \<and> handle_numeric_filter samples samples ''level'' (manual_range 1 3) =
       (samples\<lparr>rows := [[(''level'', Num (Fin 3))], [(''level'', Num (Fin 1))]]\<rparr>, True,
        RangeDetail ''level'' (Fin 1) (Fin 3), [FilterApplied 2])
   \<and> fle (Fin 25) (Fin 40) \<and> uniform_column ages ''age''
   \<and> handle_numeric_filter ages ages ''age'' (manual_range 25 40) =
       (ages\<lparr>rows := [[(''age'', Whole 25)], [(''age'', Whole 40)]]\<rparr>, True,
        RangeDetail ''age'' (Fin 25) (Fin 40), [FilterApplied 2])
   \<and> fle (Fin 18) (Fin 60)
   \<and> handle_numeric_filter ages ages ''age'' (manual_range 18 60) = (ages, False, NoDetail, [])"
proof -
  have o: "fle (Fin 1) (Fin 5)" "fle (Fin 1) (Fin 3)" "fle (Fin 25) (Fin 40)"
    "fle (Fin 18) (Fin 60)"
    by simp_all
  have full: "handle_numeric_filter samples samples ''level'' (manual_range 1 5) =
       (samples, False, NoDetail, [])"
    using numeric_filter_range [OF manual_range_chosen o(1) samples_column(1), of samples]
    by (simp add: samples_column)
  have part: "handle_numeric_filter samples samples ''level'' (manual_range 1 3) =
       (samples\<lparr>rows := [[(''level'', Num (Fin 3))], [(''level'', Num (Fin 1))]]\<rparr>, True,
        RangeDetail ''level'' (Fin 1) (Fin 3), [FilterApplied 2])"
    using numeric_filter_range [OF manual_range_chosen o(2) samples_column(1), of samples]
    by (simp add: samples_column select_rows_def len_def Let_def)
      (simp add: samples_def cell_at_def)
  have some: "handle_numeric_filter ages ages ''age'' (manual_range 25 40) =
       (ages\<lparr>rows := [[(''age'', Whole 25)], [(''age'', Whole 40)]]\<rparr>, True,
        RangeDetail ''age'' (Fin 25) (Fin 40), [FilterApplied 2])"
    using numeric_filter_range [OF manual_range_chosen o(3) ages_column(1), of ages]
    by (simp add: ages_column select_rows_def len_def Let_def)
      (simp add: ages_def cell_at_def float64_of_int_exact)
  have all: "handle_numeric_filter ages ages ''age'' (manual_range 18 60) =
       (ages, False, NoDetail, [])"
    using numeric_filter_range [OF manual_range_chosen o(4) ages_column(1), of ages]
    by (simp add: ages_column)
  show ?thesis
    using o samples_column(1) ages_column(1) full part some all by (intro conjI)
qed

text \<open>
  Claim C1 as stated fails on an integer column with a value above \<open>2^53\<close>. With the ids
  9007199254740993 and 5 and the bounds 6 and 9007199254740992, the maximum the widgets
  offer, the filter is applied and returns the row with the id 9007199254740993: its
  float64 is the upper bound, while the id itself lies above it.
\<close>

theorem rounded_value_above_final_max:
  "fle (Fin 6) (Fin 9007199254740992)
   \<and> handle_numeric_filter big_ids big_ids ''id'' (manual_range 6 9007199254740992) =
       (big_ids\<lparr>rows := [[(''id'', Whole 9007199254740993)]]\<rparr>, True,
        RangeDetail ''id'' (Fin 6) (Fin 9007199254740992), [FilterApplied 1])
   \<and> \<not> fle (exact (Whole 9007199254740993)) (Fin 9007199254740992)"
proof -
  have five: "float64_of_int 5 = 5"
    by (simp add: float64_of_int_exact)
  have lo: "column_min big_ids ''id'' = Fin 5"
    by (simp add: column_min_def present_cells_def column_of_def cell_at_def big_ids_def
        cell_min_def five)
  have hi: "column_max big_ids ''id'' = Fin 9007199254740992"
    by (simp add: column_max_def present_cells_def column_of_def cell_at_def big_ids_def
        cell_max_def float64_of_int_rounds)
  have kept: "select_rows (\<lambda>r. fge (fnum (cell_at r ''id'')) (Fin 6)
                  \<and> fle (fnum (cell_at r ''id'')) (Fin 9007199254740992)) big_ids
      = big_ids\<lparr>rows := [[(''id'', Whole 9007199254740993)]]\<rparr>"
    by (simp add: select_rows_def cell_at_def big_ids_def fge_def five float64_of_int_rounds)
  show ?thesis
    unfolding handle_numeric_filter_def Let_def manual_range_chosen prod.case lo hi kept
    by (simp add: fgt_def fne_def feq_def len_def)
qed

lemma fgt_chosen:
  "chosen_range ui = (a, b) \<Longrightarrow> fgt a b \<Longrightarrow>
   handle_numeric_filter orig df col ui = (df, False, NoDetail, [MinAboveMax a b])"
  by (simp add: handle_numeric_filter_def Let_def)

text \<open>
  Claim C8. When the selected minimum is greater than the selected maximum, the handler
  reports the error and returns the frame passed in, not applied and with an empty
  description: the bounds are neither swapped nor replaced. In the loop of
  \<open>_simple_filters\<close> the step for such a column leaves the accumulated frame, the applied
  flag and the descriptions of the columns before it as they were.
\<close>

theorem numeric_filter_min_above_max:
  assumes chosen: "chosen_range (numeric_widget W col) = (final_min, final_max)"
    and above: "fgt final_min final_max"
    and numeric: "dtype_of orig col = Some t" "t = Int64 \<or> t = Float64"
  shows "handle_numeric_filter orig df col (numeric_widget W col) =
           (df, False, NoDetail, [MinAboveMax final_min final_max])
         \<and> filter_step L orig W col p =
             Inr (p\<lparr>last_outcome := Some (False, NoDetail),
                    shown := shown p @ [MinAboveMax final_min final_max]\<rparr>)"
proof
  show "handle_numeric_filter orig df col (numeric_widget W col) =
           (df, False, NoDetail, [MinAboveMax final_min final_max])"
    using chosen above by (rule fgt_chosen)
next
  have h: "handle_numeric_filter orig (current_df p) col (numeric_widget W col) =
           (current_df p, False, NoDetail, [MinAboveMax final_min final_max])"
    using chosen above by (rule fgt_chosen)
  have d: "dispatch L orig W col t (current_df p) =
       Some (Inr (current_df p, False, NoDetail, [MinAboveMax final_min final_max]))"
    using numeric(2) by (auto simp: dispatch_def h)
  show "filter_step L orig W col p =
             Inr (p\<lparr>last_outcome := Some (False, NoDetail),
                    shown := shown p @ [MinAboveMax final_min final_max]\<rparr>)"
    by (simp add: filter_step_def numeric(1) d)
qed

text \<open>The range 40 to 25 on the ages.\<close>

theorem numeric_filter_min_above_max_witness:
  "fgt (Fin 40) (Fin 25)
   \<and> handle_numeric_filter ages ages ''age'' (manual_range 40 25) =
       (ages, False, NoDetail, [MinAboveMax (Fin 40) (Fin 25)])
   \<and> filter_step plain_library ages (range_widgets ''age'' 40 25) ''age'' (start ages) =
       Inr ((start ages)\<lparr>last_outcome := Some (False, NoDetail),
                         shown := [MinAboveMax (Fin 40) (Fin 25)]\<rparr>)"
proof -
  have c: "chosen_range (numeric_widget (range_widgets ''age'' 40 25) ''age'') = (Fin 40, Fin 25)"
    by (simp add: chosen_range_def manual_range_def range_widgets_def)
  have a: "fgt (Fin 40) (Fin 25)" by (simp add: fgt_def feq_def)
  have t: "dtype_of ages ''age'' = Some Int64" by (simp add: dtype_of_def ages_def)
  have w: "numeric_widget (range_widgets ''age'' 40 25) ''age'' = manual_range 40 25"
    by (simp add: range_widgets_def)
  show ?thesis
    using numeric_filter_min_above_max [OF c a t, of ages plain_library "start ages"] a
    by (simp add: w start_def)
qed

subsection \<open>The query builder\<close>

text \<open>
  Every fragment starts with the backtick of its column name, and the loop only appends,
  so an expression assembled from at least one part is never blank.
\<close>

lemma fragment_shape:
  "fragment orig c = [] \<or> (\<exists>f. fragment orig c = [CHR ''`'' # f])"
  by (simp add: fragment_def)

lemma build_parts_extends:
  "\<exists>rest. build_parts orig cs acc = acc @ rest"
proof (induction cs arbitrary: acc)
  case Nil
  show ?case by simp
next
  case (Cons c cs)
  obtain rest where "build_parts orig cs
       (if cs \<noteq> [] \<and> length (acc @ fragment orig c) > 0 then (acc @ fragment orig c) @ [q_logic c]
        else acc @ fragment orig c) =
       (if cs \<noteq> [] \<and> length (acc @ fragment orig c) > 0 then (acc @ fragment orig c) @ [q_logic c]
        else acc @ fragment orig c) @ rest"
    using Cons.IH by blast
  then show ?case by (auto simp: Let_def split: if_splits)
qed

lemma build_parts_head:
  "build_parts orig cs [] = [] \<or> (\<exists>f rest. build_parts orig cs [] = (CHR ''`'' # f) # rest)"
proof (induction cs)
  case Nil
  show ?case by simp
next
  case (Cons c cs)
  show ?case
  proof (cases "fragment orig c = []")
    case True
    then show ?thesis using Cons.IH by (simp add: Let_def)
  next
    case False
    then obtain f where f: "fragment orig c = [CHR ''`'' # f]"
      using fragment_shape [of orig c] by blast
    have "\<exists>rest. build_parts orig (c # cs) [] = (CHR ''`'' # f) # rest"
    proof (cases "cs \<noteq> []")
      case True
      then show ?thesis
        using build_parts_extends [of orig cs "[CHR ''`'' # f, q_logic c]"] by (auto simp: f)
    next
      case False
      then show ?thesis
        using build_parts_extends [of orig cs "[CHR ''`'' # f]"] by (auto simp: f)
    qed
    then show ?thesis by auto
  qed
qed

lemma join_spaces_head: "join_spaces ((a # x) # ys) = a # tl (join_spaces ((a # x) # ys))"
  by (cases ys) simp_all

lemma final_query_head:
  "\<exists>q. final_query ((CHR ''`'' # f) # rest) = CHR ''`'' # q"
proof (cases rest)
  case Nil
  then show ?thesis by (simp add: final_query_def)
next
  case (Cons y ys)
  have "butlast ((CHR ''`'' # f) # rest) = (CHR ''`'' # f) # butlast rest"
    using Cons by simp
  then show ?thesis
    using join_spaces_head [of "CHR ''`''" f] by (auto simp: final_query_def simp del: butlast.simps)
qed

lemma final_query_not_blank:
  assumes "build_parts orig cs [] \<noteq> []"
  shows "\<not> strip_is_empty (final_query (build_parts orig cs []))"
proof -
  obtain f rest where "build_parts orig cs [] = (CHR ''`'' # f) # rest"
    using assms build_parts_head [of orig cs] by blast
  then obtain q where "final_query (build_parts orig cs []) = CHR ''`'' # q"
    using final_query_head [of f rest] by auto
  then show ?thesis by (simp add: strip_is_empty_def is_space_def)
qed

text \<open>
  Claim C6. When the conditions assemble to an expression and the apply button is
  pressed, the expression is evaluated on the original frame, in the one call of
  \<open>df_query\<close>. If the evaluation raises, the error and a hint are shown, and the call
  returns the original frame, not applied, with no description: the function has no
  exceptional result. If it succeeds, its frame is returned as applied.
\<close>

theorem query_evaluated_once_failure_caught:
  assumes data: "\<not> empty_df (original_df s)"
    and assembled: "build_parts (original_df s) (conditions ui) [] \<noteq> []"
    and pressed: "apply_query ui"
  shows "query_builder L s ui =
     (case df_query L (original_df s)
             (final_query (build_parts (original_df s) (conditions ui) [])) of
        Inr filtered \<Rightarrow>
          (filtered, True,
           [QueryDetail (final_query (build_parts (original_df s) (conditions ui) []))],
           [QueryApplied (len filtered)])
      | Inl e \<Rightarrow> (original_df s, False, [], [QueryError (exn_message e), QueryHint]))"
proof -
  have cols: "all_cols (original_df s) \<noteq> []"
    using data by (simp add: empty_df_def all_cols_def)
  have shown: "\<not> strip_is_empty (final_query (build_parts (original_df s) (conditions ui) []))"
    using assembled by (rule final_query_not_blank)
  show ?thesis
    using data cols shown assembled pressed by (simp add: query_builder_def Let_def)
qed


lemma parts_one: "build_parts people [city_is ''NY''] [] = [''`city` == '' @ quoted ''NY'']"
  by (simp add: fragment_def city_is_def numeric_cols_def categorical_cols_def people_def
      escape_def replace_char_def)


text \<open>One condition on the city, with a library whose query raises.\<close>

theorem query_evaluated_once_failure_caught_witness:
  "\<not> empty_df (original_df (init people))
   \<and> build_parts (original_df (init people)) (conditions (apply_conditions [city_is ''NY''])) [] \<noteq> []
   \<and> apply_query (apply_conditions [city_is ''NY''])
   \<and> query_builder failing_query (init people) (apply_conditions [city_is ''NY'']) =
       (people, False, [], [QueryError ''invalid syntax'', QueryHint])"
proof -
  have o: "original_df (init people) = people" by (simp add: init_def)
  have d: "\<not> empty_df (original_df (init people))"
    unfolding o by (simp add: empty_df_def people_def)
  have c: "conditions (apply_conditions [city_is ''NY'']) = [city_is ''NY'']"
    and p: "apply_query (apply_conditions [city_is ''NY''])"
    by (simp_all add: apply_conditions_def)
  have a: "build_parts (original_df (init people)) (conditions (apply_conditions [city_is ''NY''])) [] \<noteq> []"
    unfolding o c parts_one by simp
  show ?thesis
    using query_evaluated_once_failure_caught [OF d a p, of failing_query] d a p
    unfolding o c parts_one
    by (simp add: failing_query_def example_library_def)
qed

text \<open>
  Claim C2 fails on the code. A condition with an empty text emits no fragment, but the
  connective after it is still appended, because the guard looks at the length of
  \<open>query_parts\<close> and not at what the condition emitted; and only one trailing connective
  is removed. With the conditions \<open>city == 'NY'\<close>, an empty one, and \<open>city == 'LA'\<close> the
  expression has \<open>and and\<close> between the surviving fragments; with two empty conditions
  after the first, a connective is left dangling at the end.
\<close>

theorem doubled_connective:
  "build_parts people [city_is ''NY'', city_is [], city_is ''LA''] [] =
     [''`city` == '' @ quoted ''NY'', ''and'', ''and'', ''`city` == '' @ quoted ''LA'']
   \<and> final_query (build_parts people [city_is ''NY'', city_is [], city_is ''LA''] []) =
       ''`city` == '' @ quoted ''NY'' @ '' and and `city` == '' @ quoted ''LA''
   \<and> final_query (build_parts people [city_is ''NY'', city_is [], city_is []] []) =
       ''`city` == '' @ quoted ''NY'' @ '' and''"
  by (simp add: fragment_def city_is_def numeric_cols_def categorical_cols_def people_def
      escape_def replace_char_def final_query_def quoted_def)

subsection \<open>Simple filters\<close>

text \<open>
  Claim C4 fails on the code. For a column whose dtype is none of those the chain tests,
  here a boolean one, no handler runs and \<open>col_filtered\<close> is read before it was ever
  assigned: \<open>_simple_filters\<close> raises.
\<close>

theorem unbound_local:
  "simple_filters plain_library (init flags) flag_widgets = Inl (UnboundLocalError ''col_filtered'')"
  by (simp add: simple_filters_def flag_widgets_def range_widgets_def init_def flags_def
      filter_step_def dispatch_def dtype_of_def)


subsection \<open>Joining datasets\<close>

text \<open>
  A request that reaches the \<open>try\<close> ends in one of two ways: the state with the joined
  frame as the new original, or the unchanged state and the error shown. Without a
  conversion the \<open>try\<close> is the merge followed by the efficiency metric.
\<close>

lemma join_datasets_requested:
  assumes "join_requested datasets ui l r lk rk left_df right_df left_dtype right_dtype"
  shows "join_datasets L s datasets ui =
     (let check = (if dtype_name left_dtype = dtype_name right_dtype
                   then [CompatibleTypes left_dtype]
                   else [TypeMismatch left_dtype right_dtype])
      in case try_join L left_df right_df lk rk left_dtype right_dtype (join_type ui) (auto_fix ui) of
           (Inr joined_df, msgs) \<Rightarrow>
             Inr (s\<lparr>original_df := joined_df\<rparr>, joined_df, True, [JoinDetail l r lk rk], check @ msgs)
         | (Inl e, msgs) \<Rightarrow>
             Inr (s, original_df s, False, [],
                  check @ msgs @ [JoinFailed (exn_message e)]
                  @ (if sub_in ''dtype'' (lower (exn_message e)) then [AutoFixHint] else [])))"
  using assms by (simp add: join_requested_def join_datasets_def Let_def)

lemma try_join_unconverted:
  assumes "\<not> fix \<or> dtype_name left_dtype = dtype_name right_dtype"
  shows "try_join L left_df right_df lk rk left_dtype right_dtype how fix =
     (case pd_merge L left_df right_df lk rk how of
        Inl e \<Rightarrow> (Inl e, [])
      | Inr joined_df \<Rightarrow>
          if max (len left_df) (len right_df) = 0 then (Inl ZeroDivisionError, [])
          else (Inr joined_df, []))"
  using assms by (auto simp: try_join_def Let_def)

text \<open>
  Claim C5, amended. The code does not stop a join on the compatibility check: with mismatched key
  types and auto-fix declined the merge is attempted on the unconverted keys. When the
  merge rejects them, the join is blocked: the mismatch and the error are shown, nothing
  is applied, and the object state is what it was.
\<close>

theorem mismatch_blocked_when_merge_rejects:
  assumes requested: "join_requested datasets ui l r lk rk left_df right_df left_dtype right_dtype"
    and mismatch: "dtype_name left_dtype \<noteq> dtype_name right_dtype"
    and declined: "\<not> auto_fix ui"
    and rejected: "pd_merge L left_df right_df lk rk (join_type ui) = Inl e"
  shows "join_datasets L s datasets ui =
     Inr (s, original_df s, False, [],
          [TypeMismatch left_dtype right_dtype, JoinFailed (exn_message e)]
          @ (if sub_in ''dtype'' (lower (exn_message e)) then [AutoFixHint] else []))"
proof -
  have "try_join L left_df right_df lk rk left_dtype right_dtype (join_type ui) (auto_fix ui)
        = (Inl e, [])"
    using declined rejected by (simp add: try_join_unconverted)
  then show ?thesis
    using mismatch by (simp add: join_datasets_requested [OF requested] Let_def)
qed

lemma requested_text:
  "join_requested [(''orders'', orders), (''customers'', customers_text)]
     (join_request ''orders'' ''customers'' ''customer_id'' ''id'' False)
     ''orders'' ''customers'' ''customer_id'' ''id'' orders customers_text Int64 Object"
  by (simp add: join_requested_def join_request_def dtype_of_def orders_def customers_text_def)

text \<open>An integer key against a text key, which pandas refuses to merge.\<close>

theorem mismatch_blocked_when_merge_rejects_witness:
  "dtype_name Int64 \<noteq> dtype_name Object
   \<and> \<not> auto_fix (join_request ''orders'' ''customers'' ''customer_id'' ''id'' False)
   \<and> join_datasets rejecting_merge (init orders)
       [(''orders'', orders), (''customers'', customers_text)]
       (join_request ''orders'' ''customers'' ''customer_id'' ''id'' False) =
     Inr (init orders, orders, False, [],
          [TypeMismatch Int64 Object,
           JoinFailed ''You are trying to merge on int64 and object columns for key customer_id. If you wish to proceed you should use pd.concat''])"
proof -
  have m: "dtype_name Int64 \<noteq> dtype_name Object" by simp
  have d: "\<not> auto_fix (join_request ''orders'' ''customers'' ''customer_id'' ''id'' False)"
    by (simp add: join_request_def)
  have r: "pd_merge rejecting_merge orders customers_text ''customer_id'' ''id''
      (join_type (join_request ''orders'' ''customers'' ''customer_id'' ''id'' False)) =
      Inl (Raised ''You are trying to merge on int64 and object columns for key customer_id. If you wish to proceed you should use pd.concat'')"
    by (simp add: rejecting_merge_def example_library_def)
  have o: "original_df (init orders) = orders" by (simp add: init_def)
  show ?thesis
    using mismatch_blocked_when_merge_rejects [OF requested_text m d r, of "init orders"] m d
    unfolding o exn_message.simps
    by (simp add: lower_def lower_char_def)
qed

lemma requested_numeric:
  "join_requested [(''orders'', orders), (''customers'', customers)]
     (join_request ''orders'' ''customers'' ''customer_id'' ''id'' False)
     ''orders'' ''customers'' ''customer_id'' ''id'' orders customers Int64 Float64"
  by (simp add: join_requested_def join_request_def dtype_of_def orders_def customers_def)

text \<open>
  Claim C5 as stated fails: an integer key and a float key have mismatched declared
  types, yet pandas merges them, so with auto-fix declined the join goes through and
  replaces the original frame.
\<close>

theorem mismatch_not_blocked:
  "dtype_of orders ''customer_id'' = Some Int64
   \<and> dtype_of customers ''id'' = Some Float64
   \<and> \<not> auto_fix (join_request ''orders'' ''customers'' ''customer_id'' ''id'' False)
   \<and> join_datasets (merging orders_customers) (init orders)
       [(''orders'', orders), (''customers'', customers)]
       (join_request ''orders'' ''customers'' ''customer_id'' ''id'' False) =
     Inr ((init orders)\<lparr>original_df := orders_customers\<rparr>, orders_customers, True,
          [JoinDetail ''orders'' ''customers'' ''customer_id'' ''id''],
          [TypeMismatch Int64 Float64])"
proof -
  have t: "dtype_of orders ''customer_id'' = Some Int64" "dtype_of customers ''id'' = Some Float64"
    by (simp_all add: dtype_of_def orders_def customers_def)
  have d: "\<not> auto_fix (join_request ''orders'' ''customers'' ''customer_id'' ''id'' False)"
    by (simp add: join_request_def)
  have n: "max (len orders) (len customers) = 2"
    by (simp add: len_def orders_def customers_def)
  have j: "try_join (merging orders_customers) orders customers ''customer_id'' ''id'' Int64 Float64
             (join_type (join_request ''orders'' ''customers'' ''customer_id'' ''id'' False))
             (auto_fix (join_request ''orders'' ''customers'' ''customer_id'' ''id'' False))
           = (Inr orders_customers, [])"
    by (simp add: try_join_unconverted [OF disjI1 [OF d]] n merging_def example_library_def)
  show ?thesis
    unfolding join_datasets_requested [OF requested_numeric] j using t d by simp
qed

text \<open>
  The part of claim C3 that holds: when the merge returns a frame and one of the two
  datasets has a row, the joined frame becomes the new original and is returned as
  applied, described by the two dataset names and the two keys.
\<close>

lemma join_success_replaces_original:
  assumes requested: "join_requested datasets ui l r lk rk left_df right_df left_dtype right_dtype"
    and compatible: "dtype_name left_dtype = dtype_name right_dtype"
    and merged: "pd_merge L left_df right_df lk rk (join_type ui) = Inr joined_df"
    and some_rows: "0 < max (len left_df) (len right_df)"
  shows "join_datasets L s datasets ui =
     Inr (s\<lparr>original_df := joined_df\<rparr>, joined_df, True, [JoinDetail l r lk rk],
          [CompatibleTypes left_dtype])"
proof -
  have "try_join L left_df right_df lk rk left_dtype right_dtype (join_type ui) (auto_fix ui)
        = (Inr joined_df, [])"
  proof -
    have "max (len left_df) (len right_df) \<noteq> 0" using some_rows by linarith
    then show ?thesis
      using merged by (simp only: try_join_unconverted [OF disjI2 [OF compatible]] sum.case if_False)
  qed
  then show ?thesis
    using compatible by (simp add: join_datasets_requested [OF requested] Let_def)
qed

lemma requested_empty:
  "join_requested [(''orders'', no_orders), (''customers'', no_customers)]
     (join_request ''orders'' ''customers'' ''customer_id'' ''id'' False)
     ''orders'' ''customers'' ''customer_id'' ''id'' no_orders no_customers Int64 Int64"
  by (simp add: join_requested_def join_request_def dtype_of_def no_orders_def no_customers_def)

text \<open>
  Claim C3 fails on the code when both datasets have no rows: the merge returns its
  (empty) frame, but the efficiency metric then divides by zero inside the \<open>try\<close>, the
  join is reported as failed and the original frame is not replaced.
\<close>

theorem join_fails_on_empty_datasets:
  "pd_merge (merging nothing_joined) no_orders no_customers ''customer_id'' ''id'' Inner =
     Inr nothing_joined
   \<and> join_datasets (merging nothing_joined) (init no_orders)
       [(''orders'', no_orders), (''customers'', no_customers)]
       (join_request ''orders'' ''customers'' ''customer_id'' ''id'' False) =
     Inr (init no_orders, no_orders, False, [],
          [CompatibleTypes Int64, JoinFailed ''division by zero''])"
proof -
  have m: "pd_merge (merging nothing_joined) no_orders no_customers ''customer_id'' ''id'' Inner =
     Inr nothing_joined"
    by (simp add: merging_def example_library_def)
  have d: "\<not> auto_fix (join_request ''orders'' ''customers'' ''customer_id'' ''id'' False)"
    by (simp add: join_request_def)
  have n: "max (len no_orders) (len no_customers) = 0"
    by (simp add: len_def no_orders_def no_customers_def)
  have j: "try_join (merging nothing_joined) no_orders no_customers ''customer_id'' ''id'' Int64 Int64
             (join_type (join_request ''orders'' ''customers'' ''customer_id'' ''id'' False))
             (auto_fix (join_request ''orders'' ''customers'' ''customer_id'' ''id'' False))
           = (Inl ZeroDivisionError, [])"
    by (simp add: try_join_unconverted [OF disjI1 [OF d]] n merging_def example_library_def)
  have o: "original_df (init no_orders) = no_orders" by (simp add: init_def)
  have h: "\<not> sub_in ''dtype'' (lower ''division by zero'')"
    by (simp add: lower_def lower_char_def)
  show ?thesis
    unfolding join_datasets_requested [OF requested_empty] j o using m h by simp
qed


text \<open>
  Through \<open>render_filter_ui\<close> a successful join with at least one row sets the metadata
  to an active filter of kind join with both counts the rows of the joined frame. A
  join that succeeds with no row, an inner join without a matching key, makes the
  summary line divide by zero, and this exception is not caught.
\<close>

lemma render_join_metadata:
  assumes requested: "join_requested datasets (join_widgets U) l r lk rk left_df right_df left_dtype right_dtype"
    and compatible: "dtype_name left_dtype = dtype_name right_dtype"
    and merged: "pd_merge L left_df right_df lk rk (join_type (join_widgets U)) = Inr joined_df"
    and some_rows: "0 < max (len left_df) (len right_df)"
    and chosen: "filter_type U = JoinDatasets"
    and matches: "0 < len joined_df"
  shows "render_filter_ui L s datasets U =
     Inr (s\<lparr>original_df := joined_df, filtered_df := joined_df,
             filter_info := \<lparr>active = True, ftype = Some JoinDatasets,
               original_count = len joined_df, filtered_count = len joined_df,
               filters_applied = [JoinDetail l r lk rk]\<rparr>\<rparr>,
          joined_df, True, [CompatibleTypes left_dtype, Filtered (len joined_df)])"
  using matches
  by (simp add: render_filter_ui_def chosen
      join_success_replaces_original [OF requested compatible merged some_rows])

lemma render_join_without_rows_raises:
  assumes requested: "join_requested datasets (join_widgets U) l r lk rk left_df right_df left_dtype right_dtype"
    and compatible: "dtype_name left_dtype = dtype_name right_dtype"
    and merged: "pd_merge L left_df right_df lk rk (join_type (join_widgets U)) = Inr joined_df"
    and some_rows: "0 < max (len left_df) (len right_df)"
    and chosen: "filter_type U = JoinDatasets"
    and no_match: "len joined_df = 0"
  shows "render_filter_ui L s datasets U = Inl ZeroDivisionError"
  using no_match
  by (simp add: render_filter_ui_def chosen
      join_success_replaces_original [OF requested compatible merged some_rows])

subsection \<open>The categorical filter\<close>

text \<open>
  What holds of claim C7. With at most 50 distinct values, a selection of all of them
  applies nothing and a strict subset keeps the rows whose value is selected. With more
  than 50, an empty term applies nothing, and a term keeps the rows whose string passes
  the test that the library compiles from the term.
\<close>

lemma unique_values_distinct: "distinct (unique_values df col)"
  by (simp add: unique_values_def)

lemma unique_values_set: "set (unique_values df col) = set (column_of df col)"
  by (simp add: unique_values_def)

lemma categorical_full_selection:
  assumes few: "length (unique_values orig col) \<le> 50"
    and chosen: "distinct (selected_values ui)"
      "set (selected_values ui) = set (unique_values orig col)"
  shows "handle_categorical_filter L orig df col ui = Inr (df, False, NoDetail, [])"
proof -
  have "length (selected_values ui) = length (unique_values orig col)"
    using chosen unique_values_distinct [of orig col] by (metis distinct_card)
  then show ?thesis
    using few by (simp add: handle_categorical_filter_def Let_def)
qed

lemma categorical_strict_subset:
  assumes few: "length (unique_values orig col) \<le> 50"
    and chosen: "distinct (selected_values ui)"
      "set (selected_values ui) \<subset> set (unique_values orig col)"
  shows "handle_categorical_filter L orig df col ui =
     Inr (select_rows (\<lambda>r. cell_at r col \<in> set (selected_values ui)) df, True,
          ValuesDetail col (length (selected_values ui)) (length (unique_values orig col)), [])"
proof -
  have "card (set (selected_values ui)) < card (set (unique_values orig col))"
    using chosen(2) by (simp add: psubset_card_mono)
  then have "length (selected_values ui) < length (unique_values orig col)"
    using chosen(1) unique_values_distinct [of orig col] by (simp add: distinct_card)
  then show ?thesis
    using few by (simp add: handle_categorical_filter_def Let_def)
qed

lemma categorical_empty_term:
  assumes "50 < length (unique_values orig col)" and "search_term ui = []"
  shows "handle_categorical_filter L orig df col ui = Inr (df, False, NoDetail, [])"
  using assms by (simp add: handle_categorical_filter_def Let_def)

lemma categorical_search:
  assumes "50 < length (unique_values orig col)" and "search_term ui \<noteq> []"
    and "re_compile L (search_term ui) = Inr test"
  shows "handle_categorical_filter L orig df col ui =
     Inr (select_rows (contains_mask test col) df, True, ContainsDetail col (search_term ui), [])"
  using assms by (simp add: handle_categorical_filter_def Let_def)

lemma catalog_unique: "length (unique_values catalog ''code'') = 52"
  by (simp add: unique_values_def column_of_def cell_at_def catalog_def)

text \<open>
  Claim C7 fails on the code for the search. \<open>str.contains\<close> is called without
  \<open>regex=False\<close>, so the term is a regular expression: the term \<open>a.c\<close> keeps the row
  \<open>abc\<close>, which does not contain the term.
\<close>

theorem search_term_is_a_pattern:
  "50 < length (unique_values catalog ''code'')
   \<and> handle_categorical_filter plain_library catalog catalog ''code'' (searching ''a.c'') =
       Inr (catalog\<lparr>rows := [[(''code'', Str ''abc'')], [(''code'', Str ''a.c'')]]\<rparr>, True,
            ContainsDetail ''code'' ''a.c'', [])
   \<and> sub_in (lower ''a.c'') (lower ''abc'') = False"
proof -
  have c: "re_compile plain_library ''a.c'' = Inr (\<lambda>s. matches_somewhere (lower ''a.c'') (lower s))"
    by (simp add: plain_library_def example_library_def example_compile_def plain_pattern_def)
  have f: "select_rows (contains_mask (\<lambda>s. matches_somewhere (lower ''a.c'') (lower s)) ''code'') catalog
      = catalog\<lparr>rows := [[(''code'', Str ''abc'')], [(''code'', Str ''a.c'')]]\<rparr>"
    by (simp add: select_rows_def contains_mask_def cell_at_def lower_def lower_char_def catalog_def)
  have n: "sub_in (lower ''a.c'') (lower ''abc'') = False"
    by (simp add: lower_def lower_char_def)
  show ?thesis
    by (simp add: handle_categorical_filter_def Let_def catalog_unique searching_def c f n)
qed

subsection \<open>Missing values\<close>

lemma numeric_applied_rows:
  assumes "handle_numeric_filter orig df col ui = (df', True, d, msgs)"
  shows "rows df' =
     filter (\<lambda>r. fle (fst (chosen_range ui)) (fnum (cell_at r col))
                 \<and> fle (fnum (cell_at r col)) (snd (chosen_range ui))) (rows df)"
  using assms
  by (auto simp: handle_numeric_filter_def Let_def select_rows_def fge_def
      split: prod.splits if_splits)

lemma in_range_not_missing: "fle lo (fnum c) \<Longrightarrow> \<not> is_missing c"
  by (cases c) auto

lemma categorical_search_rows:
  assumes "50 < length (unique_values orig col)"
    and "handle_categorical_filter L orig df col ui = Inr (df', True, d, msgs)"
  shows "\<exists>test. rows df' = filter (contains_mask test col) (rows df)"
  using assms
  by (auto simp: handle_categorical_filter_def Let_def select_rows_def
      split: if_splits sum.splits)

lemma contains_mask_not_missing: "contains_mask test col r \<Longrightarrow> \<not> is_missing (cell_at r col)"
  by (cases "cell_at r col") (auto simp: contains_mask_def)

text \<open>
  Claim C10. When the numeric range filter is applied, no row of the result has a
  missing value in the column, whatever the range: NaN passes neither comparison. When
  the search of a column with more than 50 distinct values is applied, no row of the
  result has a missing value in the column, whatever the term and the library: the
  test is only put to strings.
\<close>

theorem applied_filter_drops_missing:
  "(handle_numeric_filter orig df col nui = (kept, True, d, msgs)
      \<longrightarrow> list_all (\<lambda>r. \<not> is_missing (cell_at r col)) (rows kept))
   \<and> (50 < length (unique_values orig' col')
        \<and> handle_categorical_filter L orig' df' col' cui = Inr (kept', True, d', msgs')
      \<longrightarrow> list_all (\<lambda>r. \<not> is_missing (cell_at r col')) (rows kept'))"
proof (intro conjI impI)
  assume "handle_numeric_filter orig df col nui = (kept, True, d, msgs)"
  then have "rows kept =
     filter (\<lambda>r. fle (fst (chosen_range nui)) (fnum (cell_at r col))
                 \<and> fle (fnum (cell_at r col)) (snd (chosen_range nui))) (rows df)"
    by (rule numeric_applied_rows)
  then show "list_all (\<lambda>r. \<not> is_missing (cell_at r col)) (rows kept)"
    by (auto simp: list_all_iff dest: in_range_not_missing)
next
  assume "50 < length (unique_values orig' col')
        \<and> handle_categorical_filter L orig' df' col' cui = Inr (kept', True, d', msgs')"
  then obtain test where "rows kept' = filter (contains_mask test col') (rows df')"
    using categorical_search_rows by blast
  then show "list_all (\<lambda>r. \<not> is_missing (cell_at r col')) (rows kept')"
    by (auto simp: list_all_iff dest: contains_mask_not_missing)
qed

lemma readings_filtered:
  "handle_numeric_filter readings readings ''temp'' (manual_range 1 3) =
     (readings\<lparr>rows := [[(''temp'', Num (Fin 1))], [(''temp'', Num (Fin 3))]]\<rparr>, True,
      RangeDetail ''temp'' (Fin 1) (Fin 3), [FilterApplied 2])"
  by (simp add: handle_numeric_filter_def chosen_range_def manual_range_def present_cells_def
      column_of_def cell_at_def readings_def column_min_def column_max_def cell_min_def
      cell_max_def fgt_def fge_def fne_def feq_def select_rows_def len_def Let_def)

lemma catalog_searched:
  "handle_categorical_filter plain_library catalog catalog ''code'' (searching ''BC'') =
     Inr (catalog\<lparr>rows := [[(''code'', Str ''abc'')]]\<rparr>, True, ContainsDetail ''code'' ''BC'', [])"
proof -
  have c: "re_compile plain_library ''BC'' = Inr (\<lambda>s. matches_somewhere (lower ''BC'') (lower s))"
    by (simp add: plain_library_def example_library_def example_compile_def plain_pattern_def)
  have f: "select_rows (contains_mask (\<lambda>s. matches_somewhere (lower ''BC'') (lower s)) ''code'') catalog
      = catalog\<lparr>rows := [[(''code'', Str ''abc'')]]\<rparr>"
    by (simp add: select_rows_def contains_mask_def cell_at_def lower_def lower_char_def catalog_def)
  show ?thesis
    by (simp add: handle_categorical_filter_def Let_def catalog_unique searching_def c f)
qed

text \<open>
  The range 1 to 3 on readings with a NaN, and the term \<open>BC\<close> on the column with a
  missing value.
\<close>

theorem applied_filter_drops_missing_witness:
  "handle_numeric_filter readings readings ''temp'' (manual_range 1 3) =
     (readings\<lparr>rows := [[(''temp'', Num (Fin 1))], [(''temp'', Num (Fin 3))]]\<rparr>, True,
      RangeDetail ''temp'' (Fin 1) (Fin 3), [FilterApplied 2])
   \<and> list_all (\<lambda>r. \<not> is_missing (cell_at r ''temp''))
       (rows (readings\<lparr>rows := [[(''temp'', Num (Fin 1))], [(''temp'', Num (Fin 3))]]\<rparr>))
   \<and> 50 < length (unique_values catalog ''code'')
   \<and> handle_categorical_filter plain_library catalog catalog ''code'' (searching ''BC'') =
       Inr (catalog\<lparr>rows := [[(''code'', Str ''abc'')]]\<rparr>, True, ContainsDetail ''code'' ''BC'', [])
   \<and> list_all (\<lambda>r. \<not> is_missing (cell_at r ''code''))
       (rows (catalog\<lparr>rows := [[(''code'', Str ''abc'')]]\<rparr>))"
proof -
  have u: "50 < length (unique_values catalog ''code'')" by (simp add: catalog_unique)
  have numeric: "list_all (\<lambda>r. \<not> is_missing (cell_at r ''temp''))
       (rows (readings\<lparr>rows := [[(''temp'', Num (Fin 1))], [(''temp'', Num (Fin 3))]]\<rparr>))"
    using applied_filter_drops_missing [THEN conjunct1] readings_filtered by (rule mp)
  have search: "list_all (\<lambda>r. \<not> is_missing (cell_at r ''code''))
       (rows (catalog\<lparr>rows := [[(''code'', Str ''abc'')]]\<rparr>))"
    using applied_filter_drops_missing [THEN conjunct2] conjI [OF u catalog_searched] by (rule mp)
  show ?thesis
    using readings_filtered numeric u catalog_searched search by (intro conjI)
qed

subsection \<open>Dropped conditions\<close>

text \<open>
  What holds of claim C2. A text condition with an empty value emits nothing, and when
  every condition emits nothing the query builder returns the original frame and applies
  nothing.
\<close>

lemma fragment_empty_text:
  "q_column c \<notin> set (numeric_cols orig) \<Longrightarrow> q_text c = [] \<Longrightarrow> fragment orig c = []"
  by (simp add: fragment_def)

lemma build_parts_all_dropped:
  "list_all (\<lambda>c. fragment orig c = []) cs \<Longrightarrow> build_parts orig cs [] = []"
  by (induction cs) simp_all

lemma query_all_dropped:
  assumes "list_all (\<lambda>c. fragment (original_df s) c = []) (conditions ui)"
  shows "fst (query_builder L s ui) = original_df s \<and> \<not> fst (snd (query_builder L s ui))"
  using assms by (simp add: query_builder_def Let_def build_parts_all_dropped)


end
